theory Spec2Isabelle
  imports Complex_Main "HOL-Library.Monad_Syntax"
begin

section \<open>Strings of the host language\<close>

text \<open>
  A source string is a list of characters; one \<open>char\<close> stands for one UTF-16 code unit
  of the 8-bit range, which covers every literal the sources compare against.
  Indices and lengths are counted in characters, as the host's \<open>length\<close>,
  \<open>indexOf\<close> and \<open>substring\<close> count code units.
\<close>

definition dq :: char where "dq = CHR 0x22"
definition sq :: char where "sq = CHR 0x27"
definition bq :: char where "bq = CHR 0x60"
definition nl :: char where "nl = CHR 0x0A"

definition char_code :: "char \<Rightarrow> nat" where
  "char_code c = of_char c"

text \<open>White space of \<open>\s\<close>, of \<open>trim\<close> and of the numeric parsers, in the 8-bit range:
  TAB, LF, VT, FF, CR, SPACE and NBSP.\<close>

definition is_space :: "char \<Rightarrow> bool" where
  "is_space c = ((9 \<le> char_code c \<and> char_code c \<le> 13) \<or> char_code c = 32 \<or> char_code c = 160)"

definition is_digit :: "char \<Rightarrow> bool" where
  "is_digit c = (48 \<le> char_code c \<and> char_code c \<le> 57)"

definition is_upper :: "char \<Rightarrow> bool" where
  "is_upper c = (65 \<le> char_code c \<and> char_code c \<le> 90)"

definition is_lower :: "char \<Rightarrow> bool" where
  "is_lower c = (97 \<le> char_code c \<and> char_code c \<le> 122)"

text \<open>\<open>\w\<close>: letters, digits and the underscore.\<close>

definition is_word :: "char \<Rightarrow> bool" where
  "is_word c = (is_lower c \<or> is_upper c \<or> is_digit c \<or> char_code c = 95)"

text \<open>Line terminators, which \<open>.\<close> does not match without the \<open>s\<close> flag.\<close>

definition is_line_terminator :: "char \<Rightarrow> bool" where
  "is_line_terminator c = (char_code c = 10 \<or> char_code c = 13)"

definition toLowerCase :: "string \<Rightarrow> string" where
  "toLowerCase s = map (\<lambda>c. if is_upper c then char_of (char_code c + 32) else c) s"

definition trim :: "string \<Rightarrow> string" where
  "trim s = rev (dropWhile is_space (rev (dropWhile is_space s)))"

definition startsWith :: "string \<Rightarrow> string \<Rightarrow> bool" where
  "startsWith s p = (take (length p) s = p)"


text \<open>\<open>s.substring(a, b)\<close>: both indices are clamped to \<open>0 .. length\<close> and
  swapped when \<open>a > b\<close>.\<close>

definition substring :: "string \<Rightarrow> int \<Rightarrow> int \<Rightarrow> string" where
  "substring s a b =
     (let a' = min (nat a) (length s); b' = min (nat b) (length s)
      in take (max a' b' - min a' b') (drop (min a' b') s))"

text \<open>\<open>s.indexOf(p, i0)\<close>: the least index \<open>i \<ge> i0\<close> at which \<open>p\<close> occurs,
  \<open>-1\<close> when there is none.\<close>

definition indexOf :: "string \<Rightarrow> string \<Rightarrow> int \<Rightarrow> int" where
  "indexOf s p i0 =
     (case List.find (\<lambda>i. startsWith (drop i s) p) [min (nat i0) (length s) ..< Suc (length s)] of
        None \<Rightarrow> -1
      | Some i \<Rightarrow> int i)"

text \<open>\<open>s.lastIndexOf(p, i0)\<close>: the greatest index \<open>i \<le> i0\<close> at which \<open>p\<close>
  occurs; a negative \<open>i0\<close> counts as 0.\<close>

definition lastIndexOf :: "string \<Rightarrow> string \<Rightarrow> int \<Rightarrow> int" where
  "lastIndexOf s p i0 =
     (case List.find (\<lambda>i. startsWith (drop i s) p)
             (rev [0 ..< Suc (min (nat i0) (length s))]) of
        None \<Rightarrow> -1
      | Some i \<Rightarrow> int i)"

definition includes_str :: "string \<Rightarrow> string \<Rightarrow> bool" where
  "includes_str s p = (indexOf s p 0 \<noteq> -1)"

text \<open>\<open>s.replace(p, r)\<close> with a string pattern: the first occurrence only.\<close>

definition replace_str :: "string \<Rightarrow> string \<Rightarrow> string \<Rightarrow> string" where
  "replace_str s p r =
     (let i = indexOf s p 0
      in if i = -1 then s else take (nat i) s @ r @ drop (nat i + length p) s)"

text \<open>\<open>s.split(',')\<close> with a one-character separator.\<close>

fun split_char :: "char \<Rightarrow> string \<Rightarrow> string list" where
  "split_char d [] = [[]]"
| "split_char d (c # cs) =
     (if c = d then [] # split_char d cs
      else (case split_char d cs of
              [] \<Rightarrow> [[c]]
            | w # ws \<Rightarrow> (c # w) # ws))"

text \<open>\<open>xs.join(' ')\<close>.\<close>

fun join :: "string \<Rightarrow> string list \<Rightarrow> string" where
  "join d [] = []"
| "join d [x] = x"
| "join d (x # y # ys) = x @ d @ join d (y # ys)"

text \<open>\<open>xs[i]\<close> on an array: \<open>None\<close> for the host's \<open>undefined\<close>.\<close>

definition nth_opt :: "'a list \<Rightarrow> nat \<Rightarrow> 'a option" where
  "nth_opt xs i = (if i < length xs then Some (xs ! i) else None)"

text \<open>What the host throws: a syntax error, a type error, or an \<open>Error\<close> with its
  message.\<close>

datatype error = SyntaxError | TypeError | Error string

section \<open>Regular expressions\<close>

text \<open>
  The fragment of the host's pattern language that the sources use, with the host's
  backtracking semantics: a matcher returns every way to match, in the order in which
  backtracking would try them, so the head of the list is the match the host reports.
  \<^item> \<open>Star True r\<close> is the greedy \<open>r*\<close>, \<open>Star False r\<close> the lazy \<open>r*?\<close>; an
    iteration that consumes nothing is rejected, as the host does;
  \<^item> \<open>Dot\<close> is \<open>.\<close> without the \<open>s\<close> flag, \<open>AnyChar\<close> with it;
  \<^item> \<open>Bol\<close> and \<open>Eol\<close> are \<open>^\<close> and \<open>$\<close> without the \<open>m\<close> flag;
  \<^item> \<open>NLook r\<close> is the negative lookahead \<open>(?!r)\<close>;
  \<^item> \<open>Group k r\<close> is the \<open>k\<close>-th capturing group.
\<close>

datatype citem = C char | R char char

fun citem_has :: "citem \<Rightarrow> char \<Rightarrow> bool" where
  "citem_has (C a) c = (c = a)"
| "citem_has (R a b) c = (char_code a \<le> char_code c \<and> char_code c \<le> char_code b)"

datatype regex =
    Eps
  | Lit char
  | Class bool "citem list"
  | Dot
  | AnyChar
  | Bol
  | Eol
  | WordB
  | Seq regex regex
  | Alt regex regex
  | Star bool regex
  | Group nat regex
  | NLook regex

text \<open>A matcher state: the position, the input from that position on, and the spans
  captured so far, newest first.\<close>

type_synonym mstate = "nat \<times> string \<times> (nat \<times> nat \<times> nat) list"

fun step_if :: "(char \<Rightarrow> bool) \<Rightarrow> mstate \<Rightarrow> mstate list" where
  "step_if P (p, [], caps) = []"
| "step_if P (p, c # cs, caps) = (if P c then [(Suc p, cs, caps)] else [])"

definition word_at :: "string \<Rightarrow> nat \<Rightarrow> bool" where
  "word_at s i = (i < length s \<and> is_word (s ! i))"

text \<open>\<open>\b\<close>: exactly one of the characters before and at the position is a word
  character.\<close>

definition at_boundary :: "string \<Rightarrow> nat \<Rightarrow> bool" where
  "at_boundary s p = ((p > 0 \<and> word_at s (p - 1)) \<noteq> word_at s p)"

text \<open>The iteration of a starred pattern. Each round must advance the position, so
  as many rounds as characters are left exhaust the input.\<close>

primrec iter :: "bool \<Rightarrow> nat \<Rightarrow> (mstate \<Rightarrow> mstate list) \<Rightarrow> mstate \<Rightarrow> mstate list" where
  "iter g 0 f st = [st]"
| "iter g (Suc n) f st =
     (let more = concat (map (iter g n f) (filter (\<lambda>st'. fst st < fst st') (f st)))
      in if g then more @ [st] else st # more)"

primrec rmatch :: "regex \<Rightarrow> string \<Rightarrow> mstate \<Rightarrow> mstate list" where
  "rmatch Eps s st = [st]"
| "rmatch (Lit a) s st = step_if (\<lambda>c. c = a) st"
| "rmatch (Class pos items) s st = step_if (\<lambda>c. list_ex (\<lambda>i. citem_has i c) items = pos) st"
| "rmatch Dot s st = step_if (\<lambda>c. \<not> is_line_terminator c) st"
| "rmatch AnyChar s st = step_if (\<lambda>c. True) st"
| "rmatch Bol s st = (if fst st = 0 then [st] else [])"
| "rmatch Eol s st = (if fst (snd st) = [] then [st] else [])"
| "rmatch WordB s st = (if at_boundary s (fst st) then [st] else [])"
| "rmatch (Seq r1 r2) s st = concat (map (rmatch r2 s) (rmatch r1 s st))"
| "rmatch (Alt r1 r2) s st = rmatch r1 s st @ rmatch r2 s st"
| "rmatch (Star g r) s st = iter g (length (fst (snd st))) (rmatch r s) st"
| "rmatch (Group k r) s st =
     map (\<lambda>st'. (fst st', fst (snd st'), (k, fst st, fst st') # snd (snd st'))) (rmatch r s st)"
| "rmatch (NLook r) s st = (if rmatch r s st = [] then [st] else [])"

text \<open>Pattern builders: a literal string, \<open>r+\<close>, \<open>r?\<close>, \<open>r{m,n}\<close>, sequences and
  alternatives of several patterns.\<close>

definition str :: "string \<Rightarrow> regex" where
  "str cs = foldr (\<lambda>c r. Seq (Lit c) r) cs Eps"

definition seq :: "regex list \<Rightarrow> regex" where
  "seq rs = foldr Seq rs Eps"

fun alts :: "regex list \<Rightarrow> regex" where
  "alts [] = Eps"
| "alts [r] = r"
| "alts (r # rs) = Alt r (alts rs)"

definition rplus :: "regex \<Rightarrow> regex" where
  "rplus r = Seq r (Star True r)"

definition opt :: "regex \<Rightarrow> regex" where
  "opt r = Alt r Eps"

primrec upto_times :: "nat \<Rightarrow> regex \<Rightarrow> regex" where
  "upto_times 0 r = Eps"
| "upto_times (Suc n) r = opt (Seq r (upto_times n r))"

primrec rtimes :: "nat \<Rightarrow> regex \<Rightarrow> regex" where
  "rtimes 0 r = Eps"
| "rtimes (Suc n) r = Seq r (rtimes n r)"

definition rep :: "nat \<Rightarrow> nat \<Rightarrow> regex \<Rightarrow> regex" where
  "rep m n r = Seq (rtimes m r) (upto_times (n - m) r)"

definition cls :: "citem list \<Rightarrow> regex" where "cls = Class True"
definition ncls :: "citem list \<Rightarrow> regex" where "ncls = Class False"

definition ws :: "citem list" where
  "ws = [R (CHR 0x09) (CHR 0x0D), C (CHR 0x20), C (CHR 0xA0)]"

definition digit :: "citem list" where
  "digit = [R (CHR ''0'') (CHR ''9'')]"

definition alnum :: "citem list" where
  "alnum = [R (CHR ''a'') (CHR ''z''), R (CHR ''A'') (CHR ''Z''), R (CHR ''0'') (CHR ''9'')]"

definition hexdig :: "citem list" where
  "hexdig = [R (CHR ''0'') (CHR ''9''), R (CHR ''a'') (CHR ''f''), R (CHR ''A'') (CHR ''F'')]"

subsection \<open>exec, test, and the global loop\<close>

record rxmatch =
  m_index :: nat
  m_end :: nat
  m_caps :: "(nat \<times> nat \<times> nat) list"

text \<open>The leftmost match at or after position \<open>p\<close>, where \<open>rest\<close> is the input
  from \<open>p\<close> on: at each position the first way to match, if there is one.\<close>

fun scan :: "regex \<Rightarrow> string \<Rightarrow> nat \<Rightarrow> string \<Rightarrow> rxmatch option" where
  "scan r s p rest =
     (case rmatch r s (p, rest, []) of
        st # _ \<Rightarrow> Some \<lparr>m_index = p, m_end = fst st, m_caps = snd (snd st)\<rparr>
      | [] \<Rightarrow> (case rest of [] \<Rightarrow> None | c # cs \<Rightarrow> scan r s (Suc p) cs))"

text \<open>\<open>r.exec(s)\<close> with \<open>lastIndex = i\<close>: the leftmost match starting at or after
  \<open>i\<close>; without the \<open>g\<close> flag \<open>i\<close> is 0.\<close>

definition exec :: "regex \<Rightarrow> string \<Rightarrow> nat \<Rightarrow> rxmatch option" where
  "exec r s i = (if i \<le> length s then scan r s i (drop i s) else None)"

definition test :: "regex \<Rightarrow> string \<Rightarrow> bool" where
  "test r s = (exec r s 0 \<noteq> None)"

text \<open>The text of group \<open>k\<close> of a match: \<open>None\<close> when the group took no part.\<close>

definition group_text :: "string \<Rightarrow> rxmatch \<Rightarrow> nat \<Rightarrow> string option" where
  "group_text s m k =
     (case map_of (m_caps m) k of
        None \<Rightarrow> None
      | Some (a, b) \<Rightarrow> Some (take (b - a) (drop a s)))"


text \<open>\<open>a || b\<close> on optional strings: the empty string is falsy.\<close>

definition or_else :: "string option \<Rightarrow> string option \<Rightarrow> string option" where
  "or_else a b = (case a of Some (c # cs) \<Rightarrow> Some (c # cs) | _ \<Rightarrow> b)"

definition or_str :: "string option \<Rightarrow> string \<Rightarrow> string" where
  "or_str a d = (case a of Some (c # cs) \<Rightarrow> c # cs | _ \<Rightarrow> d)"

subsection \<open>Positions of a match\<close>

text \<open>A state is in step with the input when its rest is the input from its position
  on.\<close>

definition in_step :: "string \<Rightarrow> mstate \<Rightarrow> bool" where
  "in_step s st = (fst st \<le> length s \<and> fst (snd st) = drop (fst st) s)"

lemma step_if_sound:
  assumes "b \<in> set (step_if P a)" "in_step s a"
  shows "in_step s b \<and> fst b = Suc (fst a) \<and> snd (snd b) = snd (snd a)"
proof -
  obtain p rest caps where a: "a = (p, rest, caps)" by (cases a)
  with assms(1) obtain c cs where rest: "rest = c # cs" and b: "b = (Suc p, cs, caps)"
    by (cases rest) (auto split: if_splits)
  from assms(2) a rest have d: "drop p s = c # cs" and le: "p \<le> length s"
    by (simp_all add: in_step_def)
  from d have "p < length s" using le by (cases "p = length s") auto
  moreover from d have "cs = drop (Suc p) s"
    by (metis drop_Suc drop_drop list.sel(3) plus_1_eq_Suc tl_drop)
  ultimately show ?thesis using a b by (simp add: in_step_def)
qed

lemma iter_sound:
  assumes f: "\<And>a b. b \<in> set (f a) \<Longrightarrow> in_step s a \<Longrightarrow> in_step s b \<and> fst a \<le> fst b"
  shows "b \<in> set (iter g n f a) \<Longrightarrow> in_step s a \<Longrightarrow> in_step s b \<and> fst a \<le> fst b"
proof (induction n arbitrary: a)
  case 0
  then show ?case by simp
next
  case (Suc n)
  show ?case
  proof (cases "b = a")
    case True
    with Suc.prems show ?thesis by simp
  next
    case False
    with Suc.prems obtain c where c: "c \<in> set (f a)" "b \<in> set (iter g n f c)"
      by (auto simp: Let_def split: if_splits)
    from f [OF c(1) Suc.prems(2)] have "in_step s c" "fst a \<le> fst c" by simp_all
    with Suc.IH [OF c(2)] show ?thesis by simp
  qed
qed

lemma rmatch_sound:
  "b \<in> set (rmatch r s a) \<Longrightarrow> in_step s a \<Longrightarrow> in_step s b \<and> fst a \<le> fst b"
proof (induction r arbitrary: a b)
  case (Seq r1 r2)
  from Seq.prems obtain c where c: "c \<in> set (rmatch r1 s a)" "b \<in> set (rmatch r2 s c)"
    by auto
  from Seq.IH(1) [OF c(1) Seq.prems(2)] have "in_step s c" "fst a \<le> fst c" by simp_all
  with Seq.IH(2) [OF c(2)] show ?case by simp
next
  case (Alt r1 r2)
  from Alt.prems have "b \<in> set (rmatch r1 s a) \<or> b \<in> set (rmatch r2 s a)" by simp
  then show ?case using Alt.IH Alt.prems(2) by blast
next
  case (Star g r)
  then show ?case
    using iter_sound [of "rmatch r s" s b g "length (fst (snd a))" a] by simp
next
  case (Group k r)
  from Group.prems obtain c where c: "c \<in> set (rmatch r s a)"
    and b: "fst b = fst c" "fst (snd b) = fst (snd c)"
    by auto
  from Group.IH [OF c Group.prems(2)] b show ?case by (simp add: in_step_def)
next
  case (NLook r)
  then show ?case by (simp split: if_splits)
next
  case (Lit x)
  then show ?case using step_if_sound [of b _ a s] by simp
next
  case (Class x1 x2)
  then show ?case using step_if_sound [of b _ a s] by simp
next
  case Dot
  then show ?case using step_if_sound [of b _ a s] by simp
next
  case AnyChar
  then show ?case using step_if_sound [of b _ a s] by simp
qed (simp_all split: if_splits)

lemma scan_bounds:
  "scan r s p rest = Some m \<Longrightarrow> p \<le> length s \<Longrightarrow> rest = drop p s \<Longrightarrow>
     p \<le> m_index m \<and> m_index m \<le> m_end m \<and> m_end m \<le> length s"
proof (induction r s p rest rule: scan.induct)
  case (1 r s p rest)
  show ?case
  proof (cases "rmatch r s (p, rest, [])")
    case (Cons st sts)
    with "1.prems"(1) have m: "m = \<lparr>m_index = p, m_end = fst st, m_caps = snd (snd st)\<rparr>"
      by simp
    from Cons have "st \<in> set (rmatch r s (p, rest, []))" by simp
    moreover have "in_step s (p, rest, [])" using "1.prems" by (simp add: in_step_def)
    ultimately have "in_step s st \<and> p \<le> fst st" using rmatch_sound [of st r s "(p, rest, [])"]
      by simp
    with m show ?thesis by (simp add: in_step_def)
  next
    case Nil
    show ?thesis
    proof (cases rest)
      case Nil': Nil
      with Nil "1.prems"(1) show ?thesis by simp
    next
      case (Cons c cs)
      with Nil "1.prems"(1) have sc: "scan r s (Suc p) cs = Some m" by simp
      from Cons "1.prems"(2,3) have lt: "p < length s" by (cases "p = length s") auto
      from Cons "1.prems"(3) have cs: "cs = drop (Suc p) s"
        by (metis drop_Suc drop_drop list.sel(3) plus_1_eq_Suc tl_drop)
      from "1.IH" [OF Nil Cons sc _ cs] lt show ?thesis by simp
    qed
  qed
qed

lemma exec_bounds:
  assumes "exec r s i = Some m"
  shows "i \<le> m_index m \<and> m_index m \<le> m_end m \<and> m_end m \<le> length s"
proof -
  from assms have le: "i \<le> length s" and sc: "scan r s i (drop i s) = Some m"
    by (simp_all add: exec_def split: if_splits)
  from scan_bounds [OF sc le] show ?thesis by simp
qed

text \<open>The loop \<open>while ((m = r.exec(s)) !== null) { ... }\<close> over a pattern with the
  \<open>g\<close> flag, collecting the matches. \<open>exec\<close> leaves \<open>lastIndex\<close> at the end of the
  match; after an empty match the next call finds the same match again and the loop
  never ends, which is the value \<open>None\<close>.\<close>

function exec_all :: "regex \<Rightarrow> string \<Rightarrow> nat \<Rightarrow> rxmatch list option" where
  "exec_all r s i =
     (case exec r s i of
        None \<Rightarrow> Some []
      | Some m \<Rightarrow>
          if m_end m = m_index m then None
          else map_option ((#) m) (exec_all r s (m_end m)))"
  by pat_completeness auto
termination
proof (relation "measure (\<lambda>(r, s, i). Suc (length s) - i)")
  show "wf (measure (\<lambda>(r, s, i). Suc (length s) - i))" by simp
next
  fix r s i m
  assume m: "exec r s i = Some m" and ne: "m_end m \<noteq> m_index m"
  from exec_bounds [OF m] have "i \<le> m_index m" "m_index m \<le> m_end m" "m_end m \<le> length s"
    by simp_all
  with ne have "Suc (length s) - m_end m < Suc (length s) - i" by linarith
  then show "((r, s, m_end m), (r, s, i)) \<in> measure (\<lambda>(r, s, i). Suc (length s) - i)"
    by simp
qed

declare exec_all.simps [simp del]

subsection \<open>Matches of the global loop\<close>



text \<open>The spans captured in a match lie inside the match.\<close>

definition caps_within :: "nat \<Rightarrow> nat \<Rightarrow> (nat \<times> nat \<times> nat) list \<Rightarrow> bool" where
  "caps_within lo hi caps = list_all (\<lambda>(k, a, b). lo \<le> a \<and> a \<le> b \<and> b \<le> hi) caps"




text \<open>A match at or after \<open>i\<close> with its captured spans inside it.\<close>

definition match_from :: "string \<Rightarrow> nat \<Rightarrow> rxmatch \<Rightarrow> bool" where
  "match_from s i m =
     (i \<le> m_index m \<and> m_index m \<le> m_end m \<and> m_end m \<le> length s
      \<and> caps_within (m_index m) (m_end m) (m_caps m))"






text \<open>The matches of the loop follow each other: each starts at or after the end of
  the one before, and none is empty.\<close>

fun in_order :: "string \<Rightarrow> nat \<Rightarrow> rxmatch list \<Rightarrow> bool" where
  "in_order s i [] = True"
| "in_order s i (m # ms) = (match_from s i m \<and> m_index m < m_end m \<and> in_order s (m_end m) ms)"


lemma in_order_sorted: "in_order s i ms \<Longrightarrow> sorted_wrt (<) (map m_index ms) \<and> (\<forall>m \<in> set ms. i \<le> m_index m)"
proof (induction ms arbitrary: i)
  case Nil
  then show ?case by simp
next
  case (Cons m ms)
  from Cons.prems have m: "i \<le> m_index m" "m_index m < m_end m" and rest: "in_order s (m_end m) ms"
    by (simp_all add: match_from_def)
  from Cons.IH [OF rest] m show ?case by fastforce
qed









section \<open>Match results and locations\<close>

datatype TokenCategory = color | typography | spacing | borderRadius | shadow

type_synonym MatchType = TokenCategory

datatype Scope = style | className | propScope | styledComponent

record MatchLocation =
  loc_start :: int
  loc_end :: int
  loc_line :: int
  loc_column :: int

record MatchContext =
  ctx_line :: string
  ctx_element :: "string option"

text \<open>The optional \<open>metadata\<close> field is never set by the two matchers and is left out.\<close>

record MatchResult =
  r_type :: MatchType
  r_value :: string
  r_property :: string
  r_scope :: Scope
  r_context :: MatchContext
  r_location :: MatchLocation
  r_path :: "string list option"

record MatcherOptions =
  types :: "MatchType list option"
  includeContext :: "bool option"
  scopeLimit :: "Scope list option"
  customPatterns :: "regex list option"

definition no_options :: MatcherOptions where
  "no_options = \<lparr>types = None, includeContext = None, scopeLimit = None, customPatterns = None\<rparr>"

definition all_types :: "MatchType list" where
  "all_types = [color, spacing, borderRadius, shadow, typography]"

text \<open>An object literal read at a key: of two entries with the same key the later one
  is the object's.\<close>

definition obj_get :: "(string \<times> 'a) list \<Rightarrow> string \<Rightarrow> 'a option" where
  "obj_get obj k = map_of (rev obj) k"


definition getLineAndColumn :: "string \<Rightarrow> int \<Rightarrow> int \<times> int" where
  "getLineAndColumn source index =
     (if index < 0 \<or> index > int (length source) then (0, 0)
      else (let lines = split_char nl (substring source 0 index)
            in (int (length lines), int (length (last lines)) + 1)))"

definition createMatchLocation :: "string \<Rightarrow> int \<Rightarrow> int \<Rightarrow> MatchLocation" where
  "createMatchLocation source start end' =
     (case getLineAndColumn source start of
        (line, column) \<Rightarrow>
          \<lparr>loc_start = start, loc_end = end', loc_line = line, loc_column = column\<rparr>)"

definition getFullLine :: "string \<Rightarrow> int \<Rightarrow> string" where
  "getFullLine source index =
     (let lineStart = lastIndexOf source [nl] (index - 1) + 1;
          lineEnd = indexOf source [nl] index
      in substring source lineStart (if lineEnd = -1 then int (length source) else lineEnd))"

section \<open>TailwindClassMatcher\<close>

definition TAILWIND_PREFIX_MAP :: "(string \<times> string \<times> MatchType) list" where
  "TAILWIND_PREFIX_MAP =
    [(''bg-'', ''backgroundColor'', color),
     (''text-'', ''color'', color),
     (''border-'', ''borderColor'', color),
     (''border-t-'', ''borderTopColor'', color),
     (''border-b-'', ''borderBottomColor'', color),
     (''border-l-'', ''borderLeftColor'', color),
     (''border-r-'', ''borderRightColor'', color),
     (''outline-'', ''outlineColor'', color),
     (''fill-'', ''fill'', color),
     (''stroke-'', ''stroke'', color),
     (''from-'', ''gradientColorFrom'', color),
     (''to-'', ''gradientColorTo'', color),
     (''via-'', ''gradientColorVia'', color),
     (''rounded-'', ''borderRadius'', borderRadius),
     (''rounded-t-'', ''borderTopRadius'', borderRadius),
     (''rounded-b-'', ''borderBottomRadius'', borderRadius),
     (''rounded-l-'', ''borderLeftRadius'', borderRadius),
     (''rounded-r-'', ''borderRightRadius'', borderRadius),
     (''rounded-tl-'', ''borderTopLeftRadius'', borderRadius),
     (''rounded-tr-'', ''borderTopRightRadius'', borderRadius),
     (''rounded-bl-'', ''borderBottomLeftRadius'', borderRadius),
     (''rounded-br-'', ''borderBottomRightRadius'', borderRadius),
     (''shadow-'', ''boxShadow'', shadow),
     (''m-'', ''margin'', spacing),
     (''mt-'', ''marginTop'', spacing),
     (''mr-'', ''marginRight'', spacing),
     (''mb-'', ''marginBottom'', spacing),
     (''ml-'', ''marginLeft'', spacing),
     (''mx-'', ''marginHorizontal'', spacing),
     (''my-'', ''marginVertical'', spacing),
     (''p-'', ''padding'', spacing),
     (''pt-'', ''paddingTop'', spacing),
     (''pr-'', ''paddingRight'', spacing),
     (''pb-'', ''paddingBottom'', spacing),
     (''pl-'', ''paddingLeft'', spacing),
     (''px-'', ''paddingHorizontal'', spacing),
     (''py-'', ''paddingVertical'', spacing),
     (''gap-'', ''gap'', spacing),
     (''gap-x-'', ''columnGap'', spacing),
     (''gap-y-'', ''rowGap'', spacing),
     (''space-x-'', ''spaceX'', spacing),
     (''space-y-'', ''spaceY'', spacing),
     (''text-'', ''fontSize'', typography),
     (''font-'', ''fontWeight'', typography),
     (''leading-'', ''lineHeight'', typography),
     (''tracking-'', ''letterSpacing'', typography)]"

text \<open>\<open>/\b([a-z]+-[a-z]*-?)\[(.*?)\]/g\<close>\<close>

definition arbitraryValueRegex :: regex where
  "arbitraryValueRegex =
     seq [WordB,
          Group 1 (seq [rplus (cls [R (CHR ''a'') (CHR ''z'')]), Lit (CHR ''-''),
                        Star True (cls [R (CHR ''a'') (CHR ''z'')]), opt (Lit (CHR ''-''))]),
          Lit (CHR ''[''), Group 2 (Star False Dot), Lit (CHR '']'')]"

text \<open>One of the three quotes: a backquote, a double quote or a single quote.\<close>

definition quote :: regex where
  "quote = alts [Lit bq, Lit dq, Lit sq]"

text \<open>\<open>/className\s*=\s*(?:{(?:`|"|')(.*?)(?:`|"|')}|"(.*?)"|'(.*?)')/g\<close>\<close>

definition classNamePropRegex :: regex where
  "classNamePropRegex =
     seq [str ''className'', Star True (cls ws), Lit (CHR ''=''), Star True (cls ws),
          alts [seq [Lit (CHR ''{''), quote, Group 1 (Star False Dot), quote, Lit (CHR ''}'')],
                seq [Lit dq, Group 2 (Star False Dot), Lit dq],
                seq [Lit sq, Group 3 (Star False Dot), Lit sq]]]"

text \<open>\<open>/"(.*?)"|'(.*?)'|`(.*?)`/gs\<close>\<close>

definition stringLiteralRegex :: regex where
  "stringLiteralRegex =
     alts [seq [Lit dq, Group 1 (Star False AnyChar), Lit dq],
           seq [Lit sq, Group 2 (Star False AnyChar), Lit sq],
           seq [Lit bq, Group 3 (Star False AnyChar), Lit bq]]"

text \<open>A candidate string with the offsets of the whole match that holds it:
  \<open>{ value, start, end }\<close>, where \<open>value\<close> is
  \<open>match[1] || match[2] || match[3] || ''\<close>.\<close>

record classNameMatch =
  cm_value :: string
  cm_start :: nat
  cm_end :: nat

definition candidate :: "string \<Rightarrow> rxmatch \<Rightarrow> classNameMatch" where
  "candidate source m =
     \<lparr>cm_value = or_str (or_else (group_text source m 1)
                           (or_else (group_text source m 2) (group_text source m 3))) [],
      cm_start = m_index m,
      cm_end = m_end m\<rparr>"

text \<open>The \<open>className\<close> attributes of the source; when there is none, every string
  literal of the source.\<close>

definition classNameMatches :: "string \<Rightarrow> classNameMatch list option" where
  "classNameMatches source =
     do {
       ms \<leftarrow> exec_all classNamePropRegex source 0;
       if ms = [] then
         do {
           ls \<leftarrow> exec_all stringLiteralRegex source 0;
           Some (map (candidate source) ls)
         }
       else Some (map (candidate source) ms)
     }"

text \<open>The body of the inner loop up to the record it builds: \<open>None\<close> where the source
  says \<open>continue\<close>. Both groups of the pattern take part in every match, so the last
  case of the \<open>case\<close> is never taken. The record's \<open>context.element\<close> is filled in
  afterwards.\<close>

definition arbitrary_record ::
  "string \<Rightarrow> MatchType list \<Rightarrow> classNameMatch \<Rightarrow> rxmatch \<Rightarrow> MatchResult option" where
  "arbitrary_record source tys cm am =
     (case (group_text (cm_value cm) am 1, group_text (cm_value cm) am 2) of
        (Some prefix, Some v) \<Rightarrow>
          (case obj_get TAILWIND_PREFIX_MAP prefix of
             None \<Rightarrow> None
           | Some (property, ty) \<Rightarrow>
               if ty \<notin> set tys then None
               else
                 (let valueStart = int (cm_start cm) + int (m_index am) + int (length prefix) + 1;
                      valueEnd = valueStart + int (length v)
                  in Some \<lparr>r_type = ty, r_value = v, r_property = property,
                            r_scope = className,
                            r_context = \<lparr>ctx_line = getFullLine source valueStart,
                                         ctx_element = None\<rparr>,
                            r_location = createMatchLocation source valueStart valueEnd,
                            r_path = Some [''className'', prefix @ ''['' @ v @ '']'']\<rparr>))
      | _ \<Rightarrow> None)"

definition arbitrary_records ::
  "string \<Rightarrow> MatchType list \<Rightarrow> classNameMatch \<Rightarrow> MatchResult list option" where
  "arbitrary_records source tys cm =
     do {
       ams \<leftarrow> exec_all arbitraryValueRegex (cm_value cm) 0;
       Some (List.map_filter (arbitrary_record source tys cm) ams)
     }"

text \<open>Every record of a call, in the order of the two nested loops, before its element
  name is looked for. \<open>None\<close> when a loop does not end.\<close>

fun collect :: "('a \<Rightarrow> 'b list option) \<Rightarrow> 'a list \<Rightarrow> 'b list option" where
  "collect f [] = Some []"
| "collect f (x # xs) =
     do { ys \<leftarrow> f x; zs \<leftarrow> collect f xs; Some (ys @ zs) }"

definition tailwind_records :: "string \<Rightarrow> MatcherOptions \<Rightarrow> MatchResult list option" where
  "tailwind_records source options =
     do {
       cms \<leftarrow> classNameMatches source;
       collect (arbitrary_records source (case types options of None \<Rightarrow> all_types | Some ts \<Rightarrow> ts)) cms
     }"

text \<open>
  The last step of the loop body looks for the element's name with the pattern literal
  \<^verbatim>\<open>/<([A-Za-z0-9]+)[^>]*className\s*=\s*(?:{(?:`|"|')|\"|')(.*?)(?:`|"|')}|"|')/\<close>.
  Its last parenthesis closes no group, so the literal is not a pattern of the host
  language. A malformed pattern literal is an early error: the module that holds it is
  rejected when it is loaded, before any call. What the literal stands for is therefore a
  parameter \<open>er\<close> of the model: \<open>Inl SyntaxError\<close> is the source as it is written, where
  no call of \<open>match\<close> returns a list, whatever the source text and the options;
  \<open>Inr r\<close> is the source with a well-formed pattern \<open>r\<close> in the literal's place, where
  every record gets its element name from \<open>r\<close> before it is pushed.
\<close>

definition with_element :: "regex \<Rightarrow> MatchResult \<Rightarrow> MatchResult" where
  "with_element r res =
     (let lineContext = ctx_line (r_context res)
      in case exec r lineContext 0 of
           None \<Rightarrow> res
         | Some elementMatch \<Rightarrow>
             res\<lparr>r_context := (r_context res)\<lparr>ctx_element := group_text lineContext elementMatch 1\<rparr>\<rparr>)"

definition TailwindClassMatcher_match ::
  "error + regex \<Rightarrow> string \<Rightarrow> MatcherOptions \<Rightarrow> (error + MatchResult list) option" where
  "TailwindClassMatcher_match er source options =
     (case er of
        Inl e \<Rightarrow> Some (Inl e)
      | Inr r \<Rightarrow>
          do {
            rs \<leftarrow> tailwind_records source options;
            Some (Inr (map (with_element r) rs))
          })"

definition elementRegex :: "error + regex" where
  "elementRegex = Inl SyntaxError"

section \<open>InlineStyleMatcher\<close>

















section \<open>Numbers of the host language\<close>

text \<open>
  A number is \<open>NaN\<close>, an infinity or a real. Arithmetic on the finite numbers is exact:
  the rounding of the 64-bit format and the sign of zero are not modelled. Sums,
  differences and products of whole numbers of the size of a color channel are the same
  in both. A quotient, a square root or a product with a fraction is rounded by the host
  and exact here, so the two can differ where such a value is compared with a bound or
  given to \<open>Math.round\<close> next to a half. This is the case in \<open>rgbToHsl\<close>, \<open>hslToRgb\<close>,
  \<open>approximateOklchToRgb\<close> and \<open>calculateColorDistance\<close>: their definitions below follow
  the formulas of the source over the reals, and what they compute is the host's result
  only up to that rounding.
\<close>

datatype jsnum = NaN | NegInf | Num real | PosInf

fun jneg :: "jsnum \<Rightarrow> jsnum" where
  "jneg NaN = NaN"
| "jneg NegInf = PosInf"
| "jneg (Num x) = Num (- x)"
| "jneg PosInf = NegInf"

fun jadd :: "jsnum \<Rightarrow> jsnum \<Rightarrow> jsnum" where
  "jadd (Num x) (Num y) = Num (x + y)"
| "jadd NaN _ = NaN"
| "jadd _ NaN = NaN"
| "jadd PosInf NegInf = NaN"
| "jadd NegInf PosInf = NaN"
| "jadd PosInf _ = PosInf"
| "jadd _ PosInf = PosInf"
| "jadd NegInf _ = NegInf"
| "jadd _ NegInf = NegInf"

definition jsub :: "jsnum \<Rightarrow> jsnum \<Rightarrow> jsnum" where
  "jsub a b = jadd a (jneg b)"

text \<open>The sign of a number that is not \<open>NaN\<close>: \<open>-1\<close>, \<open>0\<close> or \<open>1\<close>.\<close>

fun jsign :: "jsnum \<Rightarrow> int" where
  "jsign NaN = 0"
| "jsign NegInf = -1"
| "jsign (Num x) = (if x < 0 then -1 else if x = 0 then 0 else 1)"
| "jsign PosInf = 1"

definition signed_inf :: "int \<Rightarrow> jsnum" where
  "signed_inf sg = (if sg = 0 then NaN else if sg < 0 then NegInf else PosInf)"

fun jmul :: "jsnum \<Rightarrow> jsnum \<Rightarrow> jsnum" where
  "jmul (Num x) (Num y) = Num (x * y)"
| "jmul NaN _ = NaN"
| "jmul _ NaN = NaN"
| "jmul a b = signed_inf (jsign a * jsign b)"

fun jdiv :: "jsnum \<Rightarrow> jsnum \<Rightarrow> jsnum" where
  "jdiv (Num x) (Num y) = (if y = 0 then signed_inf (jsign (Num x)) else Num (x / y))"
| "jdiv NaN _ = NaN"
| "jdiv _ NaN = NaN"
| "jdiv (Num x) _ = Num 0"
| "jdiv a (Num y) = signed_inf (jsign a * (if y < 0 then -1 else 1))"
| "jdiv _ _ = NaN"

text \<open>\<open>a % b\<close>: the remainder has the sign of the dividend.\<close>

fun jrem :: "jsnum \<Rightarrow> jsnum \<Rightarrow> jsnum" where
  "jrem (Num x) (Num y) =
     (if y = 0 then NaN
      else Num (if x < 0 then - (\<bar>x\<bar> - \<bar>y\<bar> * of_int \<lfloor>\<bar>x\<bar> / \<bar>y\<bar>\<rfloor>)
                else \<bar>x\<bar> - \<bar>y\<bar> * of_int \<lfloor>\<bar>x\<bar> / \<bar>y\<bar>\<rfloor>))"
| "jrem (Num x) PosInf = Num x"
| "jrem (Num x) NegInf = Num x"
| "jrem _ _ = NaN"

text \<open>\<open>a < b\<close>: false when either side is \<open>NaN\<close>.\<close>

fun jlt :: "jsnum \<Rightarrow> jsnum \<Rightarrow> bool" where
  "jlt (Num x) (Num y) = (x < y)"
| "jlt NaN _ = False"
| "jlt _ NaN = False"
| "jlt NegInf b = (b \<noteq> NegInf)"
| "jlt a PosInf = (a \<noteq> PosInf)"
| "jlt _ _ = False"

text \<open>\<open>a === b\<close> on numbers: \<open>NaN\<close> equals nothing.\<close>

definition jeq :: "jsnum \<Rightarrow> jsnum \<Rightarrow> bool" where
  "jeq a b = (a \<noteq> NaN \<and> a = b)"

text \<open>\<open>a >= b\<close>\<close>

definition jge :: "jsnum \<Rightarrow> jsnum \<Rightarrow> bool" where
  "jge a b = (jlt b a \<or> jeq a b)"

definition Math_max :: "jsnum \<Rightarrow> jsnum \<Rightarrow> jsnum" where
  "Math_max a b = (if a = NaN \<or> b = NaN then NaN else if jlt a b then b else a)"

definition Math_min :: "jsnum \<Rightarrow> jsnum \<Rightarrow> jsnum" where
  "Math_min a b = (if a = NaN \<or> b = NaN then NaN else if jlt b a then b else a)"

fun Math_round :: "jsnum \<Rightarrow> jsnum" where
  "Math_round (Num x) = Num (of_int \<lfloor>x + 1 / 2\<rfloor>)"
| "Math_round a = a"

fun Math_floor :: "jsnum \<Rightarrow> jsnum" where
  "Math_floor (Num x) = Num (of_int \<lfloor>x\<rfloor>)"
| "Math_floor a = a"

fun Math_sqrt :: "jsnum \<Rightarrow> jsnum" where
  "Math_sqrt (Num x) = (if x < 0 then NaN else Num (sqrt x))"
| "Math_sqrt PosInf = PosInf"
| "Math_sqrt _ = NaN"

text \<open>\<open>Math.pow(a, 2)\<close>\<close>

definition Math_pow2 :: "jsnum \<Rightarrow> jsnum" where
  "Math_pow2 a = jmul a a"

definition isNaN :: "jsnum \<Rightarrow> bool" where
  "isNaN a = (a = NaN)"

subsection \<open>Numbers and strings\<close>

text \<open>The value of a digit in a radix up to 36, if it is one.\<close>

definition digit_value :: "nat \<Rightarrow> char \<Rightarrow> nat option" where
  "digit_value radix c =
     (let v = (if is_digit c then Some (char_code c - 48)
               else if is_lower c then Some (char_code c - 87)
               else if is_upper c then Some (char_code c - 55)
               else None)
      in case v of None \<Rightarrow> None | Some d \<Rightarrow> if d < radix then Some d else None)"

definition digits_value :: "nat \<Rightarrow> string \<Rightarrow> nat" where
  "digits_value radix ds = foldl (\<lambda>acc c. acc * radix + (case digit_value radix c of None \<Rightarrow> 0 | Some d \<Rightarrow> d)) 0 ds"

text \<open>\<open>parseInt(s, radix)\<close> for a radix of 2 to 36: leading white space and a sign are
  skipped, with radix 16 a prefix \<open>0x\<close> or \<open>0X\<close> too, and the longest run of digits is
  read; \<open>NaN\<close> when there is no digit.\<close>

definition parseInt :: "string \<Rightarrow> nat \<Rightarrow> jsnum" where
  "parseInt s radix =
     (let s1 = dropWhile is_space s;
          negative = startsWith s1 ''-'';
          s2 = (if startsWith s1 ''-'' \<or> startsWith s1 ''+'' then tl s1 else s1);
          s3 = (if radix = 16 \<and> (startsWith s2 ''0x'' \<or> startsWith s2 ''0X'') then drop 2 s2 else s2);
          z = takeWhile (\<lambda>c. digit_value radix c \<noteq> None) s3
      in if z = [] then NaN
         else Num (if negative then - real (digits_value radix z) else real (digits_value radix z)))"

text \<open>An argument that is \<open>undefined\<close> is read as the string \<open>undefined\<close>, which starts
  with no digit of radix 10 or 16 and with no decimal literal.\<close>

definition parseInt_opt :: "string option \<Rightarrow> nat \<Rightarrow> jsnum" where
  "parseInt_opt s radix = (case s of None \<Rightarrow> NaN | Some v \<Rightarrow> parseInt v radix)"

text \<open>The longest prefix of the shape \<open>digits [. digits] | . digits\<close>, then an exponent
  \<open>(e|E) [+|-] digits\<close> if one follows: the mantissa's digits before and after the point,
  the exponent, and what is left of the string. \<open>None\<close> when there is no mantissa.\<close>

definition read_decimal :: "string \<Rightarrow> (string \<times> string \<times> int \<times> string) option" where
  "read_decimal s =
     (let ip = takeWhile is_digit s;
          r1 = dropWhile is_digit s;
          fp = (if startsWith r1 ''.'' then takeWhile is_digit (tl r1) else []);
          r2 = (if startsWith r1 ''.'' \<and> (ip \<noteq> [] \<or> fp \<noteq> []) then dropWhile is_digit (tl r1) else r1);
          has_e = (startsWith r2 ''e'' \<or> startsWith r2 ''E'');
          r3 = (if has_e then tl r2 else r2);
          eneg = startsWith r3 ''-'';
          r4 = (if startsWith r3 ''-'' \<or> startsWith r3 ''+'' then tl r3 else r3);
          ed = takeWhile is_digit r4
      in if ip = [] \<and> fp = [] then None
         else if has_e \<and> ed \<noteq> []
         then Some (ip, fp, (if eneg then - int (digits_value 10 ed) else int (digits_value 10 ed)),
                    dropWhile is_digit r4)
         else Some (ip, fp, 0, r2))"

definition decimal_value :: "string \<Rightarrow> string \<Rightarrow> int \<Rightarrow> real" where
  "decimal_value ip fp e =
     (real (digits_value 10 ip) + real (digits_value 10 fp) / 10 ^ length fp) * 10 powi e"

text \<open>\<open>parseFloat(s)\<close>: leading white space is skipped and the longest prefix that is a
  decimal literal is read; \<open>NaN\<close> when there is none.\<close>

definition parseFloat :: "string \<Rightarrow> jsnum" where
  "parseFloat s =
     (let s1 = dropWhile is_space s;
          negative = startsWith s1 ''-'';
          s2 = (if startsWith s1 ''-'' \<or> startsWith s1 ''+'' then tl s1 else s1)
      in if startsWith s2 ''Infinity'' then (if negative then NegInf else PosInf)
         else (case read_decimal s2 of
                 None \<Rightarrow> NaN
               | Some (ip, fp, e, _) \<Rightarrow>
                   Num (if negative then - decimal_value ip fp e else decimal_value ip fp e)))"

definition parseFloat_opt :: "string option \<Rightarrow> jsnum" where
  "parseFloat_opt s = (case s of None \<Rightarrow> NaN | Some v \<Rightarrow> parseFloat v)"

text \<open>\<open>Number(s)\<close>: the whole string, trimmed, must be a numeric literal; the empty
  string is 0.\<close>

definition radix_literal :: "string \<Rightarrow> jsnum option" where
  "radix_literal s =
     (let radix = (if startsWith s ''0x'' \<or> startsWith s ''0X'' then 16
                   else if startsWith s ''0o'' \<or> startsWith s ''0O'' then 8
                   else if startsWith s ''0b'' \<or> startsWith s ''0B'' then 2 else 0);
          ds = drop 2 s
      in if radix \<noteq> 0 \<and> ds \<noteq> [] \<and> list_all (\<lambda>c. digit_value radix c \<noteq> None) ds
         then Some (Num (real (digits_value radix ds))) else None)"

definition Number_of :: "string \<Rightarrow> jsnum" where
  "Number_of s =
     (let t = trim s;
          negative = startsWith t ''-'';
          u = (if startsWith t ''-'' \<or> startsWith t ''+'' then tl t else t)
      in if t = [] then Num 0
         else (case radix_literal t of
                 Some n \<Rightarrow> n
               | None \<Rightarrow>
                   if u = ''Infinity'' then (if negative then NegInf else PosInf)
                   else (case read_decimal u of
                           Some (ip, fp, e, []) \<Rightarrow>
                             Num (if negative then - decimal_value ip fp e else decimal_value ip fp e)
                         | _ \<Rightarrow> NaN)))"

definition hex_digit :: "nat \<Rightarrow> char" where
  "hex_digit d = ''0123456789abcdef'' ! d"

function hex_of_nat :: "nat \<Rightarrow> string" where
  "hex_of_nat n = (if n < 16 then [hex_digit n] else hex_of_nat (n div 16) @ [hex_digit (n mod 16)])"
  by pat_completeness auto
termination
  by (relation "measure id") simp_all

declare hex_of_nat.simps [simp del]

text \<open>\<open>n.toString(16)\<close>. The sources call it on the result of
  \<open>Math.max(0, Math.min(255, Math.round(value)))\<close> only, which is \<open>NaN\<close> or a whole
  number of 0 to 255; digits after the point are not modelled.\<close>

fun toString16 :: "jsnum \<Rightarrow> string" where
  "toString16 NaN = ''NaN''"
| "toString16 PosInf = ''Infinity''"
| "toString16 NegInf = ''-Infinity''"
| "toString16 (Num x) = (if x < 0 then ''-'' @ hex_of_nat (nat \<lfloor>- x\<rfloor>) else hex_of_nat (nat \<lfloor>x\<rfloor>))"

subsection \<open>Splitting at a pattern\<close>

text \<open>The first way to match \<open>r\<close> exactly at position \<open>q\<close>: the position where the
  match ends.\<close>

definition match_end_at :: "regex \<Rightarrow> string \<Rightarrow> nat \<Rightarrow> nat option" where
  "match_end_at r s q =
     (case rmatch r s (q, drop q s, []) of [] \<Rightarrow> None | st # _ \<Rightarrow> Some (fst st))"

text \<open>\<open>s.split(r)\<close> for a pattern without capturing groups: \<open>p\<close> is the start of the
  current piece and \<open>q\<close> the position tried next. A match that ends at \<open>p\<close> is skipped.
  After an empty match at \<open>q > p\<close> the host cuts the piece and tries \<open>q\<close> again with
  \<open>p = q\<close>, where the same match is skipped: the two rounds are one here.\<close>

function split_from :: "regex \<Rightarrow> string \<Rightarrow> nat \<Rightarrow> nat \<Rightarrow> string list" where
  "split_from r s p q =
     (if q \<ge> length s then [drop p s]
      else (case match_end_at r s q of
              None \<Rightarrow> split_from r s p (Suc q)
            | Some e \<Rightarrow>
                if min e (length s) = p then split_from r s p (Suc q)
                else if min e (length s) \<le> q then take (q - p) (drop p s) # split_from r s q (Suc q)
                else take (q - p) (drop p s) # split_from r s (min e (length s)) (min e (length s))))"
  by pat_completeness auto
termination
  by (relation "measure (\<lambda>(r, s, p, q). length s - q)") auto

declare split_from.simps [simp del]

definition split_regex :: "regex \<Rightarrow> string \<Rightarrow> string list" where
  "split_regex r s =
     (if s = [] then (if match_end_at r s 0 = None then [s] else [])
      else split_from r s 0 0)"

section \<open>Color conversions\<close>

record RGB =
  rgb_r :: jsnum
  rgb_g :: jsnum
  rgb_b :: jsnum
  rgb_a :: "jsnum option"

record HSL =
  hsl_h :: jsnum
  hsl_s :: jsnum
  hsl_l :: jsnum
  hsl_a :: "jsnum option"

record OKLCH =
  ok_l :: jsnum
  ok_c :: jsnum
  ok_h :: jsnum
  ok_a :: "jsnum option"

text \<open>What \<open>parseColor\<close> returns.\<close>

record ColorFormats =
  hex :: string
  rgb :: RGB
  hsl :: "HSL option"
  oklch :: "OKLCH option"

definition toHex :: "jsnum \<Rightarrow> string" where
  "toHex v =
     (let h = toString16 (Math_max (Num 0) (Math_min (Num 255) (Math_round v)))
      in if length h = 1 then ''0'' @ h else h)"

definition rgbToHex :: "RGB \<Rightarrow> string" where
  "rgbToHex c =
     (let h = ''#'' @ toHex (rgb_r c) @ toHex (rgb_g c) @ toHex (rgb_b c)
      in case rgb_a c of
           None \<Rightarrow> h
         | Some a \<Rightarrow> if jlt a (Num 1) then h @ toHex (Math_round (jmul a (Num 255))) else h)"

text \<open>\<open>rgbToHsl\<close>, with exact quotients where the host rounds them.\<close>

definition rgbToHsl :: "RGB \<Rightarrow> HSL" where
  "rgbToHsl c =
     (let r = jdiv (rgb_r c) (Num 255);
          g = jdiv (rgb_g c) (Num 255);
          b = jdiv (rgb_b c) (Num 255);
          mx = Math_max (Math_max r g) b;
          mn = Math_min (Math_min r g) b;
          delta = jsub mx mn;
          l = jdiv (jadd mx mn) (Num 2);
          s = (if \<not> jeq delta (Num 0)
               then (if jlt (Num (1 / 2)) l then jdiv delta (jsub (jsub (Num 2) mx) mn)
                     else jdiv delta (jadd mx mn))
               else Num 0);
          h = (if \<not> jeq delta (Num 0)
               then Math_round (jmul
                      (if jeq mx r then jadd (jdiv (jsub g b) delta) (if jlt g b then Num 6 else Num 0)
                       else if jeq mx g then jadd (jdiv (jsub b r) delta) (Num 2)
                       else jadd (jdiv (jsub r g) delta) (Num 4))
                      (Num 60))
               else Num 0)
      in \<lparr>hsl_h = h, hsl_s = Math_round (jmul s (Num 100)),
          hsl_l = Math_round (jmul l (Num 100)), hsl_a = rgb_a c\<rparr>)"

definition hue2rgb :: "jsnum \<Rightarrow> jsnum \<Rightarrow> jsnum \<Rightarrow> jsnum" where
  "hue2rgb p q t0 =
     (let t1 = (if jlt t0 (Num 0) then jadd t0 (Num 1) else t0);
          t = (if jlt (Num 1) t1 then jsub t1 (Num 1) else t1)
      in if jlt t (Num (1 / 6)) then jadd p (jmul (jmul (jsub q p) (Num 6)) t)
         else if jlt t (Num (1 / 2)) then q
         else if jlt t (Num (2 / 3)) then jadd p (jmul (jmul (jsub q p) (jsub (Num (2 / 3)) t)) (Num 6))
         else p)"

definition hslToRgb :: "HSL \<Rightarrow> RGB" where
  "hslToRgb c =
     (let h = jdiv (hsl_h c) (Num 360);
          s = hsl_s c;
          l = jdiv (hsl_l c) (Num 100);
          q = (if jlt l (Num (1 / 2)) then jmul l (jadd (Num 1) s) else jsub (jadd l s) (jmul l s));
          p = jsub (jmul (Num 2) l) q;
          r = (if jeq s (Num 0) then l else hue2rgb p q (jadd h (Num (1 / 3))));
          g = (if jeq s (Num 0) then l else hue2rgb p q h);
          b = (if jeq s (Num 0) then l else hue2rgb p q (jsub h (Num (1 / 3))))
      in \<lparr>rgb_r = Math_round (jmul r (Num 255)), rgb_g = Math_round (jmul g (Num 255)),
          rgb_b = Math_round (jmul b (Num 255)), rgb_a = hsl_a c\<rparr>)"

text \<open>The channel of \<open>approximateOklchToRgb\<close>: \<open>Math.max(0, Math.min(255, Math.round(v * 255)))\<close>.\<close>

definition channel :: "jsnum \<Rightarrow> jsnum" where
  "channel v = Math_max (Num 0) (Math_min (Num 255) (Math_round (jmul v (Num 255))))"

text \<open>\<open>approximateOklchToRgb\<close>, with exact products where the host rounds them.\<close>

definition approximateOklchToRgb :: "OKLCH \<Rightarrow> RGB" where
  "approximateOklchToRgb c =
     (let l = Math_max (Num 0) (Math_min (Num 1) (ok_l c));
          ch = Math_max (Num 0) (Math_min (Num (4 / 10)) (ok_c c));
          h = jrem (ok_h c) (Num 360);
          hueSection = Math_floor (jdiv h (Num 60));
          hueRemainder = jdiv (jrem h (Num 60)) (Num 60);
          colorValue = jmul l (jsub (jadd (Num 1) (jmul ch (Num 2))) (Num 1));
          mn = jmul l (jsub (Num 1) ch);
          mid = jmul l (jsub (Num 1) (jmul ch (jsub (Num 1) hueRemainder)));
          mx = jmul l (jsub (Num 1) (jmul ch hueRemainder));
          k = jrem hueSection (Num 6);
          rgb3 = (if jeq k (Num 0) then (colorValue, mid, mn)
                  else if jeq k (Num 1) then (mx, colorValue, mn)
                  else if jeq k (Num 2) then (mn, colorValue, mid)
                  else if jeq k (Num 3) then (mn, mx, colorValue)
                  else if jeq k (Num 4) then (mid, mn, colorValue)
                  else if jeq k (Num 5) then (colorValue, mn, mx)
                  else (l, l, l))
      in case rgb3 of
           (r, g, b) \<Rightarrow> \<lparr>rgb_r = channel r, rgb_g = channel g, rgb_b = channel b, rgb_a = ok_a c\<rparr>)"

text \<open>\<^verbatim>\<open>/oklch\(([^)]+)\)/\<close>\<close>

definition oklchRegex :: regex where
  "oklchRegex = seq [str ''oklch('', Group 1 (rplus (ncls [C (CHR '')'')])), Lit (CHR '')'')]"

text \<open>\<^verbatim>\<open>/\s+|,\s*/\<close>\<close>

definition partsRegex :: regex where
  "partsRegex = Alt (rplus (cls ws)) (Seq (Lit (CHR '','')) (Star True (cls ws)))"

text \<open>\<open>parseOklchColor\<close> throws an \<open>Error\<close> when the pattern does not match, and a
  \<open>TypeError\<close> when there is no first part to call \<open>replace\<close> on.\<close>

definition parseOklchColor :: "string \<Rightarrow> error + ColorFormats" where
  "parseOklchColor oklchStr =
     (case exec oklchRegex oklchStr 0 of
        None \<Rightarrow> Inl (Error (''Invalid OKLCH color: '' @ oklchStr))
      | Some m \<Rightarrow>
          (let parts = filter (\<lambda>x. x \<noteq> []) (split_regex partsRegex (or_str (group_text oklchStr m 1) []))
           in case nth_opt parts 0 of
                None \<Rightarrow> Inl TypeError
              | Some p0 \<Rightarrow>
                  (let l = jdiv (parseFloat (replace_str p0 ''%'' []))
                             (if includes_str p0 ''%'' then Num 100 else Num 1);
                       c = parseFloat_opt (nth_opt parts 1);
                       h = parseFloat_opt (nth_opt parts 2);
                       a = (if length parts \<ge> 4 then Some (parseFloat_opt (nth_opt parts 3)) else None);
                       ok = \<lparr>ok_l = l, ok_c = c, ok_h = h, ok_a = a\<rparr>;
                       rgb' = approximateOklchToRgb ok
                   in Inr \<lparr>hex = rgbToHex rgb', rgb = rgb', hsl = Some (rgbToHsl rgb'),
                            oklch = Some ok\<rparr>)))"

definition parseHexColor :: "string \<Rightarrow> ColorFormats" where
  "parseHexColor hexStr =
     (let h0 = replace_str hexStr ''#'' [];
          h = (if length h0 = 3 then [h0 ! 0, h0 ! 0, h0 ! 1, h0 ! 1, h0 ! 2, h0 ! 2] else h0);
          r = parseInt (substring h 0 2) 16;
          g = parseInt (substring h 2 4) 16;
          b = parseInt (substring h 4 6) 16;
          a = (if length h = 8 then Some (jdiv (parseInt (substring h 6 8) 16) (Num 255)) else None);
          rgb' = \<lparr>rgb_r = r, rgb_g = g, rgb_b = b, rgb_a = a\<rparr>
      in \<lparr>hex = ''#'' @ h, rgb = rgb', hsl = Some (rgbToHsl rgb'), oklch = None\<rparr>)"

definition parseRgbColor :: "string \<Rightarrow> ColorFormats" where
  "parseRgbColor rgbStr =
     (let isRgba = startsWith rgbStr ''rgba('';
          values = map trim (split_char (CHR '','')
                     (replace_str (replace_str rgbStr (if isRgba then ''rgba('' else ''rgb('') []) '')'' []));
          r = parseInt_opt (nth_opt values 0) 10;
          g = parseInt_opt (nth_opt values 1) 10;
          b = parseInt_opt (nth_opt values 2) 10;
          a = (if isRgba then Some (parseFloat_opt (nth_opt values 3)) else None);
          rgb' = \<lparr>rgb_r = r, rgb_g = g, rgb_b = b, rgb_a = a\<rparr>
      in \<lparr>hex = rgbToHex rgb', rgb = rgb', hsl = Some (rgbToHsl rgb'), oklch = None\<rparr>)"

definition parseHslColor :: "string \<Rightarrow> ColorFormats" where
  "parseHslColor hslStr =
     (let isHsla = startsWith hslStr ''hsla('';
          values = map trim (split_char (CHR '','')
                     (replace_str (replace_str hslStr (if isHsla then ''hsla('' else ''hsl('') []) '')'' []));
          h = parseInt_opt (nth_opt values 0) 10;
          s = jdiv (parseInt_opt (nth_opt values 1) 10) (Num 100);
          l = jdiv (parseInt_opt (nth_opt values 2) 10) (Num 100);
          a = (if isHsla then Some (parseFloat_opt (nth_opt values 3)) else None);
          hsl' = \<lparr>hsl_h = h, hsl_s = s, hsl_l = l, hsl_a = a\<rparr>;
          rgb' = hslToRgb hsl'
      in \<lparr>hex = rgbToHex rgb', rgb = rgb', hsl = Some hsl', oklch = None\<rparr>)"

text \<open>\<open>colorStr.replace(/\s+/g, '')\<close> deletes every run of white space.\<close>

definition remove_whitespace :: "string \<Rightarrow> string" where
  "remove_whitespace s = filter (\<lambda>c. \<not> is_space c) s"

text \<open>The fallback writes a warning to the console and returns black.\<close>

definition parseColor :: "string \<Rightarrow> error + ColorFormats" where
  "parseColor colorStr =
     (let cleanedStr = remove_whitespace colorStr
      in if startsWith cleanedStr ''oklch('' then parseOklchColor cleanedStr
         else if startsWith cleanedStr ''#'' then Inr (parseHexColor cleanedStr)
         else if startsWith cleanedStr ''rgb('' \<or> startsWith cleanedStr ''rgba(''
         then Inr (parseRgbColor cleanedStr)
         else if startsWith cleanedStr ''hsl('' \<or> startsWith cleanedStr ''hsla(''
         then Inr (parseHslColor cleanedStr)
         else Inr \<lparr>hex = ''#000000'',
                   rgb = \<lparr>rgb_r = Num 0, rgb_g = Num 0, rgb_b = Num 0, rgb_a = None\<rparr>,
                   hsl = None, oklch = None\<rparr>)"

text \<open>\<open>calculateColorDistance\<close>, with the exact square roots and quotient: a distance next
  to a threshold can fall on the other side of it in the host.\<close>

definition calculateColorDistance :: "RGB \<Rightarrow> RGB \<Rightarrow> jsnum" where
  "calculateColorDistance color1 color2 =
     (let rDiff = Math_pow2 (jsub (rgb_r color1) (rgb_r color2));
          gDiff = Math_pow2 (jsub (rgb_g color1) (rgb_g color2));
          bDiff = Math_pow2 (jsub (rgb_b color1) (rgb_b color2));
          distance = Math_sqrt (jadd (jadd rDiff gDiff) bDiff)
      in jdiv distance (jmul (Num 255) (Math_sqrt (Num 3))))"

section \<open>Design tokens\<close>

text \<open>
  The five token interfaces extend \<open>BaseToken\<close>. Each fixes its \<open>category\<close> to one
  literal, so the category of a token is read off its variant (\<open>category\<close> below) and
  is not a field of its own. The optional \<open>description\<close> is never set by the registry and
  is left out.
\<close>

record BaseToken =
  name :: string
  cssVariable :: string
  tailwindClass :: "string option"

record ColorToken = BaseToken +
  originalValue :: string
  color_value :: ColorFormats

record TypographyValue =
  fontFamily :: "string option"
  fontSize :: "string option"
  fontWeight :: "(string + jsnum) option"
  lineHeight :: "(string + jsnum) option"
  letterSpacing :: "string option"

record TypographyToken = BaseToken +
  typography_value :: TypographyValue

record SpacingToken = BaseToken +
  spacing_value :: string

record BorderRadiusToken = BaseToken +
  radius_value :: string

record ShadowComponent =
  sc_x :: "string option"
  sc_y :: "string option"
  sc_blur :: string
  sc_spread :: string
  sc_color :: string
  sc_inset :: bool

record ShadowToken = BaseToken +
  shadow_value :: string
  components :: "ShadowComponent list option"

datatype DesignToken =
    ColorT ColorToken
  | TypographyT TypographyToken
  | SpacingT SpacingToken
  | BorderRadiusT BorderRadiusToken
  | ShadowT ShadowToken

fun category :: "DesignToken \<Rightarrow> TokenCategory" where
  "category (ColorT t) = color"
| "category (TypographyT t) = typography"
| "category (SpacingT t) = spacing"
| "category (BorderRadiusT t) = borderRadius"
| "category (ShadowT t) = shadow"

fun token_name :: "DesignToken \<Rightarrow> string" where
  "token_name (ColorT t) = name t"
| "token_name (TypographyT t) = name t"
| "token_name (SpacingT t) = name t"
| "token_name (BorderRadiusT t) = name t"
| "token_name (ShadowT t) = name t"

fun token_cssVariable :: "DesignToken \<Rightarrow> string" where
  "token_cssVariable (ColorT t) = cssVariable t"
| "token_cssVariable (TypographyT t) = cssVariable t"
| "token_cssVariable (SpacingT t) = cssVariable t"
| "token_cssVariable (BorderRadiusT t) = cssVariable t"
| "token_cssVariable (ShadowT t) = cssVariable t"

fun token_tailwindClass :: "DesignToken \<Rightarrow> string option" where
  "token_tailwindClass (ColorT t) = tailwindClass t"
| "token_tailwindClass (TypographyT t) = tailwindClass t"
| "token_tailwindClass (SpacingT t) = tailwindClass t"
| "token_tailwindClass (BorderRadiusT t) = tailwindClass t"
| "token_tailwindClass (ShadowT t) = tailwindClass t"

record TokenMatch =
  tm_token :: DesignToken
  tm_confidence :: jsnum
  tm_originalValue :: string

record TokenMatchOptions =
  threshold :: "jsnum option"
  categories :: "TokenCategory list option"
  exact :: "bool option"

record TokenRegistryOptions =
  cssPath :: "string option"
  cssContent :: "string option"
  normalizeColors :: "bool option"

section \<open>TokenRegistry\<close>

text \<open>The state of a registry: its private fields. \<open>cssVars\<close> is the host's \<open>Map\<close>, which
  keeps its keys in the order of their first insertion.\<close>

record TokenRegistry =
  colorTokens :: "ColorToken list"
  typographyTokens :: "TypographyToken list"
  spacingTokens :: "SpacingToken list"
  borderRadiusTokens :: "BorderRadiusToken list"
  shadowTokens :: "ShadowToken list"
  cssVars :: "(string \<times> string) list"
  initialized :: bool
  options :: TokenRegistryOptions

text \<open>\<open>new TokenRegistry(options)\<close>\<close>

definition TokenRegistry_new :: "TokenRegistryOptions \<Rightarrow> TokenRegistry" where
  "TokenRegistry_new opts =
     \<lparr>colorTokens = [], typographyTokens = [], spacingTokens = [], borderRadiusTokens = [],
      shadowTokens = [], cssVars = [], initialized = False, options = opts\<rparr>"

text \<open>\<open>map.set(k, v)\<close>: a key that is present keeps its place.\<close>

fun map_set :: "(string \<times> string) list \<Rightarrow> string \<Rightarrow> string \<Rightarrow> (string \<times> string) list" where
  "map_set [] k v = [(k, v)]"
| "map_set ((k', v') # kvs) k v = (if k' = k then (k, v) # kvs else (k', v') # map_set kvs k v)"

text \<open>\<^verbatim>\<open>/--([a-zA-Z0-9_-]+)\s*:\s*([^;]+);/g\<close>\<close>

definition variableRegex :: regex where
  "variableRegex =
     seq [str ''--'', Group 1 (rplus (cls (alnum @ [C (CHR ''_''), C (CHR ''-'')]))),
          Star True (cls ws), Lit (CHR '':''), Star True (cls ws),
          Group 2 (rplus (ncls [C (CHR '';'')])), Lit (CHR '';'')]"

text \<open>\<open>None\<close> when the loop over the declarations does not end.\<close>

definition parseCssVariables :: "string \<Rightarrow> (string \<times> string) list \<Rightarrow> (string \<times> string) list option" where
  "parseCssVariables cssText vars =
     do {
       ms \<leftarrow> exec_all variableRegex cssText 0;
       Some (foldl (\<lambda>acc m. map_set acc (''--'' @ trim (or_str (group_text cssText m 1) []))
                                  (trim (or_str (group_text cssText m 2) [])))
               vars ms)
     }"

text \<open>\<open>s.replace(r, new)\<close> for a pattern without the \<open>g\<close> flag: the first match only.\<close>

definition replace_regex :: "regex \<Rightarrow> string \<Rightarrow> string \<Rightarrow> string" where
  "replace_regex r s new =
     (case exec r s 0 of
        None \<Rightarrow> s
      | Some m \<Rightarrow> take (m_index m) s @ new @ drop (m_end m) s)"

definition getNameFromCssVariable :: "string \<Rightarrow> string" where
  "getNameFromCssVariable cssVar =
     (let n = replace_regex (Seq Bol (str ''--'')) cssVar []
      in replace_regex
           (Seq Bol (Group 1 (alts [str ''color-'', str ''font-'', str ''spacing-'',
                                    str ''border-radius-'', str ''shadow-''])))
           n [])"

text \<open>The six patterns of \<open>isColorValue\<close>:
  \<^item> \<^verbatim>\<open>/^#[0-9a-fA-F]{3,8}$/\<close>
  \<^item> \<^verbatim>\<open>/^rgb\(\s*\d+\s*,\s*\d+\s*,\s*\d+\s*\)$/\<close>
  \<^item> \<^verbatim>\<open>/^rgba\(\s*\d+\s*,\s*\d+\s*,\s*\d+\s*,\s*[\d.]+\s*\)$/\<close>
  \<^item> \<^verbatim>\<open>/^hsl\(\s*\d+\s*,\s*\d+%\s*,\s*\d+%\s*\)$/\<close>
  \<^item> \<^verbatim>\<open>/^hsla\(\s*\d+\s*,\s*\d+%\s*,\s*\d+%\s*,\s*[\d.]+\s*\)$/\<close>
  \<^item> \<^verbatim>\<open>/^oklch\(\s*[\d.]+%?\s+[\d.]+\s+[\d.]+\s*\)$/\<close>
\<close>

definition sp :: regex where "sp = Star True (cls ws)"
definition num :: regex where "num = rplus (cls digit)"
definition pct :: regex where "pct = Seq (rplus (cls digit)) (Lit (CHR ''%''))"
definition dec :: regex where "dec = rplus (cls (digit @ [C (CHR ''.'')]))"
definition comma :: regex where "comma = Lit (CHR '','')"

definition colorFormats :: "regex list" where
  "colorFormats =
     [seq [Bol, Lit (CHR ''#''), rep 3 8 (cls hexdig), Eol],
      seq [Bol, str ''rgb('', sp, num, sp, comma, sp, num, sp, comma, sp, num, sp,
           Lit (CHR '')''), Eol],
      seq [Bol, str ''rgba('', sp, num, sp, comma, sp, num, sp, comma, sp, num, sp, comma, sp,
           dec, sp, Lit (CHR '')''), Eol],
      seq [Bol, str ''hsl('', sp, num, sp, comma, sp, pct, sp, comma, sp, pct, sp,
           Lit (CHR '')''), Eol],
      seq [Bol, str ''hsla('', sp, num, sp, comma, sp, pct, sp, comma, sp, pct, sp, comma, sp,
           dec, sp, Lit (CHR '')''), Eol],
      seq [Bol, str ''oklch('', sp, dec, opt (Lit (CHR ''%'')), rplus (cls ws), dec,
           rplus (cls ws), dec, sp, Lit (CHR '')''), Eol]]"

definition isColorValue :: "string \<Rightarrow> bool" where
  "isColorValue v = list_ex (\<lambda>regex. test regex (trim v)) colorFormats"

definition isTypographyProperty :: "string \<Rightarrow> bool" where
  "isTypographyProperty cssVar =
     list_ex (\<lambda>p. includes_str cssVar p)
       [''font-family'', ''font-size'', ''font-weight'', ''line-height'', ''letter-spacing'',
        ''text-'']"

text \<open>A parse error is caught and written to the console; the token is left out.\<close>

definition createColorToken :: "string \<Rightarrow> string \<Rightarrow> string \<Rightarrow> TokenRegistry \<Rightarrow> TokenRegistry" where
  "createColorToken n cssVar v reg =
     (case parseColor v of
        Inl e \<Rightarrow> reg
      | Inr cf \<Rightarrow>
          reg\<lparr>colorTokens := colorTokens reg @
                [\<lparr>name = n, cssVariable = cssVar,
                  tailwindClass = (if startsWith cssVar ''--color-'' then Some (''text-'' @ n) else None),
                  originalValue = v,
                  color_value = \<lparr>hex = hex cf, rgb = rgb cf, hsl = hsl cf, oklch = oklch cf\<rparr>\<rparr>]\<rparr>)"

text \<open>\<^verbatim>\<open>/-font-(family|size|weight|style)$|-line-height$|-letter-spacing$/\<close>\<close>

definition typographySuffix :: regex where
  "typographySuffix =
     alts [seq [str ''-font-'', Group 1 (alts [str ''family'', str ''size'', str ''weight'', str ''style'']), Eol],
           seq [str ''-line-height'', Eol],
           seq [str ''-letter-spacing'', Eol]]"

text \<open>\<open>isNaN(Number(v)) ? v : Number(v)\<close>\<close>

definition number_or_string :: "string \<Rightarrow> string + jsnum" where
  "number_or_string v = (if isNaN (Number_of v) then Inl v else Inr (Number_of v))"

definition setTypographyProperty :: "string \<Rightarrow> string \<Rightarrow> TypographyValue \<Rightarrow> TypographyValue" where
  "setTypographyProperty cssVar v tv =
     (if includes_str cssVar ''font-family'' then tv\<lparr>fontFamily := Some v\<rparr>
      else if includes_str cssVar ''font-size'' then tv\<lparr>fontSize := Some v\<rparr>
      else if includes_str cssVar ''font-weight'' then tv\<lparr>fontWeight := Some (number_or_string v)\<rparr>
      else if includes_str cssVar ''line-height'' then tv\<lparr>lineHeight := Some (number_or_string v)\<rparr>
      else if includes_str cssVar ''letter-spacing'' then tv\<lparr>letterSpacing := Some v\<rparr>
      else tv)"

text \<open>The first token with the base name is updated where it stands.\<close>

fun update_first :: "('a \<Rightarrow> bool) \<Rightarrow> ('a \<Rightarrow> 'a) \<Rightarrow> 'a list \<Rightarrow> 'a list" where
  "update_first P f [] = []"
| "update_first P f (x # xs) = (if P x then f x # xs else x # update_first P f xs)"

definition createOrUpdateTypographyToken ::
  "string \<Rightarrow> string \<Rightarrow> string \<Rightarrow> TokenRegistry \<Rightarrow> TokenRegistry" where
  "createOrUpdateTypographyToken n cssVar v reg =
     (let baseName = replace_regex typographySuffix n [];
          fresh = \<lparr>name = baseName, cssVariable = ''--'' @ baseName, tailwindClass = None,
                   typography_value = \<lparr>fontFamily = None, fontSize = None, fontWeight = None,
                                        lineHeight = None, letterSpacing = None\<rparr>\<rparr>;
          tokens = (if List.find (\<lambda>t. name t = baseName) (typographyTokens reg) = None
                    then typographyTokens reg @ [fresh] else typographyTokens reg)
      in reg\<lparr>typographyTokens :=
               update_first (\<lambda>t. name t = baseName)
                 (\<lambda>t. t\<lparr>typography_value := setTypographyProperty cssVar v (typography_value t)\<rparr>)
                 tokens\<rparr>)"

definition createSpacingToken :: "string \<Rightarrow> string \<Rightarrow> string \<Rightarrow> TokenRegistry \<Rightarrow> TokenRegistry" where
  "createSpacingToken n cssVar v reg =
     reg\<lparr>spacingTokens := spacingTokens reg @
           [\<lparr>name = n, cssVariable = cssVar,
             tailwindClass = (if startsWith cssVar ''--spacing-'' then Some (''p-'' @ n) else None),
             spacing_value = v\<rparr>]\<rparr>"

definition createBorderRadiusToken :: "string \<Rightarrow> string \<Rightarrow> string \<Rightarrow> TokenRegistry \<Rightarrow> TokenRegistry" where
  "createBorderRadiusToken n cssVar v reg =
     reg\<lparr>borderRadiusTokens := borderRadiusTokens reg @
           [\<lparr>name = n, cssVariable = cssVar,
             tailwindClass = (if startsWith cssVar ''--border-radius-'' then Some (''rounded-'' @ n) else None),
             radius_value = v\<rparr>]\<rparr>"

text \<open>\<^verbatim>\<open>/,(?![^(]*\))/\<close>: a comma that is not followed by a closing parenthesis
  with no opening one before it.\<close>

definition shadowSeparator :: regex where
  "shadowSeparator =
     Seq (Lit (CHR '','')) (NLook (Seq (Star True (ncls [C (CHR ''('')])) (Lit (CHR '')''))))"

definition or_default :: "string option \<Rightarrow> string \<Rightarrow> string" where
  "or_default a d = or_str a d"

definition parseShadowComponents :: "string \<Rightarrow> ShadowComponent list" where
  "parseShadowComponents shadowValue =
     map (\<lambda>part.
            (let comps = split_regex (rplus (cls ws)) (trim part);
                 hasInset = (nth_opt comps 0 = Some ''inset'');
                 startIndex = (if hasInset then 1 else 0)
             in \<lparr>sc_x = nth_opt comps startIndex,
                 sc_y = nth_opt comps (startIndex + 1),
                 sc_blur = or_default (nth_opt comps (startIndex + 2)) ''0'',
                 sc_spread = or_default (nth_opt comps (startIndex + 3)) ''0'',
                 sc_color = or_default (Some (join '' '' (drop (startIndex + 4) comps))) ''currentColor'',
                 sc_inset = hasInset\<rparr>))
       (split_regex shadowSeparator shadowValue)"

definition createShadowToken :: "string \<Rightarrow> string \<Rightarrow> string \<Rightarrow> TokenRegistry \<Rightarrow> TokenRegistry" where
  "createShadowToken n cssVar v reg =
     reg\<lparr>shadowTokens := shadowTokens reg @
           [\<lparr>name = n, cssVariable = cssVar,
             tailwindClass = (if startsWith cssVar ''--shadow-'' then Some (''shadow-'' @ n) else None),
             shadow_value = v,
             components = Some (parseShadowComponents v)\<rparr>]\<rparr>"

text \<open>The body of the loop of \<open>createTokens\<close>, for one entry of \<open>cssVars\<close>.\<close>

definition createToken :: "TokenRegistry \<Rightarrow> string \<times> string \<Rightarrow> TokenRegistry" where
  "createToken reg entry =
     (case entry of
        (cssVar, v) \<Rightarrow>
          if startsWith v ''var('' then reg
          else
            (let n = getNameFromCssVariable cssVar
             in if isColorValue v then createColorToken n cssVar v reg
                else if includes_str cssVar ''spacing'' then createSpacingToken n cssVar v reg
                else if includes_str cssVar ''border-radius'' then createBorderRadiusToken n cssVar v reg
                else if includes_str cssVar ''shadow'' then createShadowToken n cssVar v reg
                else if isTypographyProperty cssVar then createOrUpdateTypographyToken n cssVar v reg
                else reg))"

definition createTokens :: "TokenRegistry \<Rightarrow> TokenRegistry" where
  "createTokens reg = foldl createToken reg (cssVars reg)"

text \<open>A usage error of the registry.\<close>

definition notInitialized :: error where
  "notInitialized = Error ''TokenRegistry not initialized. Call initialize() first.''"

text \<open>\<open>initialize\<close>. Reading the file at \<open>cssPath\<close> is the parameter \<open>readFile\<close>, which
  gives the file's text or fails. An empty string counts as no path and as no content.
  The result is \<open>None\<close> when the call does not return, \<open>Some (Inl e)\<close> when it throws
  \<open>e\<close>, and \<open>Some (Inr reg')\<close> when it returns and leaves the registry as \<open>reg'\<close>.\<close>

definition load :: "string \<Rightarrow> TokenRegistry \<Rightarrow> (error + TokenRegistry) option" where
  "load cssText reg =
     do {
       vars \<leftarrow> parseCssVariables cssText (cssVars reg);
       Some (Inr ((createTokens (reg\<lparr>cssVars := vars\<rparr>))\<lparr>initialized := True\<rparr>))
     }"

definition initialize ::
  "(string \<Rightarrow> string option) \<Rightarrow> TokenRegistry \<Rightarrow> (error + TokenRegistry) option" where
  "initialize readFile reg =
     (if initialized reg then Some (Inr reg)
      else (case cssPath (options reg) of
              Some (c # cs) \<Rightarrow>
                (case readFile (c # cs) of
                   None \<Rightarrow> Some (Inl (Error ''Failed to read CSS file''))
                 | Some cssText \<Rightarrow> load cssText reg)
            | _ \<Rightarrow>
                (case cssContent (options reg) of
                   Some (c # cs) \<Rightarrow> load (c # cs) reg
                 | _ \<Rightarrow> Some (Inl (Error ''No CSS source provided. Specify cssPath or cssContent.'')))))"

subsection \<open>The queries\<close>

text \<open>Every public query returns \<open>Inl e\<close> when it throws \<open>e\<close> and \<open>Inr v\<close> when it
  returns \<open>v\<close>.\<close>

fun getTokensByCategory :: "TokenRegistry \<Rightarrow> TokenCategory \<Rightarrow> error + DesignToken list" where
  "getTokensByCategory reg color = Inr (map ColorT (colorTokens reg))"
| "getTokensByCategory reg typography = Inr (map TypographyT (typographyTokens reg))"
| "getTokensByCategory reg spacing = Inr (map SpacingT (spacingTokens reg))"
| "getTokensByCategory reg borderRadius = Inr (map BorderRadiusT (borderRadiusTokens reg))"
| "getTokensByCategory reg shadow = Inr (map ShadowT (shadowTokens reg))"

definition getAllTokens :: "TokenRegistry \<Rightarrow> error + DesignToken list" where
  "getAllTokens reg =
     Inr (map ColorT (colorTokens reg) @ map TypographyT (typographyTokens reg)
          @ map SpacingT (spacingTokens reg) @ map BorderRadiusT (borderRadiusTokens reg)
          @ map ShadowT (shadowTokens reg))"

definition findTokenByName :: "TokenRegistry \<Rightarrow> string \<Rightarrow> error + DesignToken option" where
  "findTokenByName reg n =
     (case getAllTokens reg of
        Inl e \<Rightarrow> Inl e
      | Inr tokens \<Rightarrow>
          Inr (List.find (\<lambda>token. token_name token = n \<or> token_cssVariable token = n
                                \<or> token_cssVariable token = ''--'' @ n
                                \<or> token_tailwindClass token = Some n) tokens))"

definition findTokenByCssVariable :: "TokenRegistry \<Rightarrow> string \<Rightarrow> error + DesignToken option" where
  "findTokenByCssVariable reg cssVar =
     (case getAllTokens reg of
        Inl e \<Rightarrow> Inl e
      | Inr tokens \<Rightarrow> Inr (List.find (\<lambda>token. token_cssVariable token = cssVar) tokens))"

text \<open>The loop that keeps the token of the least distance: the pair is
  \<open>(closestToken, smallestDistance)\<close>.\<close>

definition closest_step :: "RGB \<Rightarrow> ColorToken option \<times> jsnum \<Rightarrow> ColorToken \<Rightarrow> ColorToken option \<times> jsnum" where
  "closest_step target acc token =
     (let distance = calculateColorDistance target (rgb (color_value token))
      in if jlt distance (snd acc) then (Some token, distance) else acc)"

definition findClosestColorMatch ::
  "TokenRegistry \<Rightarrow> string \<Rightarrow> TokenMatchOptions \<Rightarrow> error + TokenMatch option" where
  "findClosestColorMatch reg colorValue opts =
     (if \<not> initialized reg then Inl notInitialized
      else (case parseColor colorValue of
              Inl e \<Rightarrow> Inr None
            | Inr targetColor \<Rightarrow>
                (let thr = (case threshold opts of None \<Rightarrow> Num (85 / 100) | Some t \<Rightarrow> t)
                 in case List.find (\<lambda>token. toLowerCase (hex (color_value token))
                                              = toLowerCase (hex targetColor)) (colorTokens reg) of
                      Some exactMatch \<Rightarrow>
                        Inr (Some \<lparr>tm_token = ColorT exactMatch, tm_confidence = Num 1,
                                   tm_originalValue = colorValue\<rparr>)
                    | None \<Rightarrow>
                        if exact opts = Some True then Inr None
                        else (case foldl (closest_step (rgb targetColor)) (None, PosInf) (colorTokens reg) of
                                (closestToken, smallestDistance) \<Rightarrow>
                                  (let confidence = jsub (Num 1) smallestDistance
                                   in case closestToken of
                                        Some token \<Rightarrow>
                                          if jge confidence thr
                                          then Inr (Some \<lparr>tm_token = ColorT token,
                                                          tm_confidence = confidence,
                                                          tm_originalValue = colorValue\<rparr>)
                                          else Inr None
                                      | None \<Rightarrow> Inr None)))))"

text \<open>An exact match on the string value: confidence 1.\<close>

definition exact_match :: "DesignToken \<Rightarrow> string \<Rightarrow> TokenMatch" where
  "exact_match token v = \<lparr>tm_token = token, tm_confidence = Num 1, tm_originalValue = v\<rparr>"

definition findBestMatch ::
  "TokenRegistry \<Rightarrow> string \<Rightarrow> TokenCategory option \<Rightarrow> TokenMatchOptions \<Rightarrow> error + TokenMatch option" where
  "findBestMatch reg v cat opts =
     (if \<not> initialized reg then Inl notInitialized
      else
        (case (if (cat = None \<or> cat = Some color) \<and> isColorValue v
               then findClosestColorMatch reg v opts else Inr None) of
           Inl e \<Rightarrow> Inl e
         | Inr (Some colorMatch) \<Rightarrow> Inr (Some colorMatch)
         | Inr None \<Rightarrow>
             (case (if cat = None \<or> cat = Some spacing
                    then List.find (\<lambda>token. spacing_value token = v) (spacingTokens reg) else None) of
                Some spacingMatch \<Rightarrow> Inr (Some (exact_match (SpacingT spacingMatch) v))
              | None \<Rightarrow>
                  (case (if cat = None \<or> cat = Some borderRadius
                         then List.find (\<lambda>token. radius_value token = v) (borderRadiusTokens reg)
                         else None) of
                     Some radiusMatch \<Rightarrow> Inr (Some (exact_match (BorderRadiusT radiusMatch) v))
                   | None \<Rightarrow>
                       (case (if cat = None \<or> cat = Some shadow
                              then List.find (\<lambda>token. shadow_value token = v) (shadowTokens reg)
                              else None) of
                          Some shadowMatch \<Rightarrow> Inr (Some (exact_match (ShadowT shadowMatch) v))
                        | None \<Rightarrow> Inr None)))))"

text \<open>\<open>exportTokensToJson\<close>. Serialising the tokens and writing the file is the parameter
  \<open>writeTokens\<close>, which says whether the write succeeded.\<close>

definition exportTokensToJson ::
  "(string \<Rightarrow> DesignToken list \<Rightarrow> bool) \<Rightarrow> TokenRegistry \<Rightarrow> string \<Rightarrow> error + unit" where
  "exportTokensToJson writeTokens reg filePath =
     (if \<not> initialized reg then Inl notInitialized
      else (case getAllTokens reg of
              Inl e \<Rightarrow> Inl e
            | Inr tokens \<Rightarrow>
                if writeTokens filePath tokens then Inr ()
                else Inl (Error ''Failed to export tokens to JSON'')))"

record TokenCounts =
  count_color :: nat
  count_typography :: nat
  count_spacing :: nat
  count_borderRadius :: nat
  count_shadow :: nat

definition getTokenCounts :: "TokenRegistry \<Rightarrow> error + TokenCounts" where
  "getTokenCounts reg =
     Inr \<lparr>count_color = length (colorTokens reg),
          count_typography = length (typographyTokens reg),
          count_spacing = length (spacingTokens reg),
          count_borderRadius = length (borderRadiusTokens reg),
          count_shadow = length (shadowTokens reg)\<rparr>"

section \<open>The read accessors on the heap\<close>

text \<open>
  Arrays and tokens are objects of the host: a field of the registry holds a reference to
  an array, and an array holds references to token objects. Whether a caller can reach
  the registry's own arrays is a question about references, so the three read accessors
  are modelled once more on an explicit heap. \<open>[...xs]\<close> allocates a new array that
  holds the same references as \<open>xs\<close>; \<open>getTokenCounts\<close> returns a new object of five
  numbers. References from \<open>next_ref\<close> on are unused.
\<close>

type_synonym ref = nat

record heap =
  arrays :: "ref \<Rightarrow> ref list option"
  objects :: "ref \<Rightarrow> DesignToken option"
  next_ref :: ref

text \<open>The five array fields of a registry object.\<close>

record registry_refs =
  colorTokens_ref :: ref
  typographyTokens_ref :: ref
  spacingTokens_ref :: ref
  borderRadiusTokens_ref :: ref
  shadowTokens_ref :: ref

fun field_ref :: "registry_refs \<Rightarrow> TokenCategory \<Rightarrow> ref" where
  "field_ref rr color = colorTokens_ref rr"
| "field_ref rr typography = typographyTokens_ref rr"
| "field_ref rr spacing = spacingTokens_ref rr"
| "field_ref rr borderRadius = borderRadiusTokens_ref rr"
| "field_ref rr shadow = shadowTokens_ref rr"

definition elements :: "heap \<Rightarrow> ref \<Rightarrow> ref list" where
  "elements h a = (case arrays h a of None \<Rightarrow> [] | Some xs \<Rightarrow> xs)"

text \<open>A new array with the given elements: its reference and the heap after the
  allocation.\<close>

definition new_array :: "heap \<Rightarrow> ref list \<Rightarrow> ref \<times> heap" where
  "new_array h xs =
     (next_ref h, h\<lparr>arrays := (arrays h)(next_ref h \<mapsto> xs), next_ref := Suc (next_ref h)\<rparr>)"

definition getTokensByCategory_heap :: "heap \<Rightarrow> registry_refs \<Rightarrow> TokenCategory \<Rightarrow> ref \<times> heap" where
  "getTokensByCategory_heap h rr c = new_array h (elements h (field_ref rr c))"

definition getAllTokens_heap :: "heap \<Rightarrow> registry_refs \<Rightarrow> ref \<times> heap" where
  "getAllTokens_heap h rr =
     new_array h (elements h (colorTokens_ref rr) @ elements h (typographyTokens_ref rr)
                  @ elements h (spacingTokens_ref rr) @ elements h (borderRadiusTokens_ref rr)
                  @ elements h (shadowTokens_ref rr))"

definition getTokenCounts_heap :: "heap \<Rightarrow> registry_refs \<Rightarrow> TokenCounts \<times> heap" where
  "getTokenCounts_heap h rr =
     (\<lparr>count_color = length (elements h (colorTokens_ref rr)),
       count_typography = length (elements h (typographyTokens_ref rr)),
       count_spacing = length (elements h (spacingTokens_ref rr)),
       count_borderRadius = length (elements h (borderRadiusTokens_ref rr)),
       count_shadow = length (elements h (shadowTokens_ref rr))\<rparr>, h)"

text \<open>The tokens an array holds, read through the heap.\<close>

definition tokens_of :: "heap \<Rightarrow> ref \<Rightarrow> DesignToken option list" where
  "tokens_of h a = map (objects h) (elements h a)"

text \<open>What the three accessors answer on a heap: the tokens of each category, all
  tokens, and the counts.\<close>

definition answers ::
  "heap \<Rightarrow> registry_refs \<Rightarrow> (TokenCategory \<Rightarrow> DesignToken option list) \<times> DesignToken option list \<times> TokenCounts" where
  "answers h rr =
     ((\<lambda>c. case getTokensByCategory_heap h rr c of (a, h') \<Rightarrow> tokens_of h' a),
      (case getAllTokens_heap h rr of (a, h') \<Rightarrow> tokens_of h' a),
      fst (getTokenCounts_heap h rr))"

text \<open>Any write to the array \<open>a\<close>: its elements become \<open>xs\<close>.\<close>

definition write_array :: "heap \<Rightarrow> ref \<Rightarrow> ref list \<Rightarrow> heap" where
  "write_array h a xs = h\<lparr>arrays := (arrays h)(a \<mapsto> xs)\<rparr>"

text \<open>The registry's arrays are allocated.\<close>

definition allocated :: "heap \<Rightarrow> registry_refs \<Rightarrow> bool" where
  "allocated h rr =
     (colorTokens_ref rr < next_ref h \<and> typographyTokens_ref rr < next_ref h
      \<and> spacingTokens_ref rr < next_ref h \<and> borderRadiusTokens_ref rr < next_ref h
      \<and> shadowTokens_ref rr < next_ref h)"

text \<open>The registry's own part of a heap: its five arrays and every token object.\<close>

definition registry_part :: "heap \<Rightarrow> registry_refs \<Rightarrow> (TokenCategory \<Rightarrow> ref list option) \<times> (ref \<Rightarrow> DesignToken option)" where
  "registry_part h rr = ((\<lambda>c. arrays h (field_ref rr c)), objects h)"

text \<open>A write to the token object at \<open>r\<close>: the object becomes \<open>token\<close>.\<close>

definition write_object :: "heap \<Rightarrow> ref \<Rightarrow> DesignToken \<Rightarrow> heap" where
  "write_object h r token = h\<lparr>objects := (objects h)(r \<mapsto> token)\<rparr>"

section \<open>Scenarios and auxiliary notions\<close>

subsection \<open>Scenarios of the utility-class matcher\<close>

text \<open>The fields of a record that the scenarios speak of: type, value, property and
  scope.\<close>

definition claimed_fields :: "MatchResult \<Rightarrow> MatchType \<times> string \<times> string \<times> Scope" where
  "claimed_fields res = (r_type res, r_value res, r_property res, r_scope res)"

text \<open>\<open><div className="bg-[#25C9D0] text-[rgb(85,85,85)]">\<close>\<close>

definition c1_source :: string where
  "c1_source = ''<div className='' @ [dq] @ ''bg-[#25C9D0] text-[rgb(85,85,85)]'' @ [dq] @ ''>''"

subsection \<open>parseColor\<close>

text \<open>The color that stands for a string of no recognised family: opaque black.\<close>

definition black :: ColorFormats where
  "black = \<lparr>hex = ''#000000'',
            rgb = \<lparr>rgb_r = Num 0, rgb_g = Num 0, rgb_b = Num 0, rgb_a = None\<rparr>,
            hsl = None, oklch = None\<rparr>"

text \<open>A registry state and a query for the witness: one spacing token of value \<open>1rem\<close>.\<close>

definition no_match_options :: TokenMatchOptions where
  "no_match_options = \<lparr>threshold = None, categories = None, exact = None\<rparr>"

definition no_registry_options :: TokenRegistryOptions where
  "no_registry_options = \<lparr>cssPath = None, cssContent = None, normalizeColors = None\<rparr>"

definition spacing_sm :: SpacingToken where
  "spacing_sm = \<lparr>name = ''sm'', cssVariable = ''--spacing-sm'', tailwindClass = Some ''p-sm'',
                 spacing_value = ''1rem''\<rparr>"

definition one_spacing :: TokenRegistry where
  "one_spacing = (TokenRegistry_new no_registry_options)
                   \<lparr>spacingTokens := [spacing_sm], initialized := True\<rparr>"

subsection \<open>The registry's state machine\<close>

text \<open>The counts of an empty registry.\<close>

definition no_tokens :: TokenCounts where
  "no_tokens = \<lparr>count_color = 0, count_typography = 0, count_spacing = 0,
                 count_borderRadius = 0, count_shadow = 0\<rparr>"

text \<open>A reader of files that finds none, and a writer that always succeeds.\<close>

definition no_files :: "string \<Rightarrow> string option" where
  "no_files path = None"

definition write_ok :: "string \<Rightarrow> DesignToken list \<Rightarrow> bool" where
  "write_ok path tokens = True"

subsection \<open>findClosestColorMatch\<close>

text \<open>Two color tokens for the witness: a blue one, and a red one whose hex is written
  in lower case.\<close>

definition token_blue :: ColorToken where
  "token_blue = \<lparr>name = ''blue'', cssVariable = ''--color-blue'', tailwindClass = Some ''text-blue'',
     originalValue = ''#0000FE'',
     color_value = \<lparr>hex = ''#0000FE'',
                    rgb = \<lparr>rgb_r = Num 0, rgb_g = Num 0, rgb_b = Num 254, rgb_a = None\<rparr>,
                    hsl = None, oklch = None\<rparr>\<rparr>"

definition token_red :: ColorToken where
  "token_red = \<lparr>name = ''red'', cssVariable = ''--color-red'', tailwindClass = Some ''text-red'',
     originalValue = ''#ff0000'',
     color_value = \<lparr>hex = ''#ff0000'',
                    rgb = \<lparr>rgb_r = Num 255, rgb_g = Num 0, rgb_b = Num 0, rgb_a = None\<rparr>,
                    hsl = None, oklch = None\<rparr>\<rparr>"

definition two_colors :: TokenRegistry where
  "two_colors = (TokenRegistry_new no_registry_options)
                  \<lparr>colorTokens := [token_blue, token_red], initialized := True\<rparr>"

definition only_blue :: TokenRegistry where
  "only_blue = (TokenRegistry_new no_registry_options)
                 \<lparr>colorTokens := [token_blue], initialized := True\<rparr>"

definition exact_only :: TokenMatchOptions where
  "exact_only = \<lparr>threshold = None, categories = None, exact = Some True\<rparr>"

text \<open>The tokens whose hex equals the hex of the target, letter case apart.\<close>

definition same_hex :: "ColorFormats \<Rightarrow> ColorToken \<Rightarrow> bool" where
  "same_hex target token = (toLowerCase (hex (color_value token)) = toLowerCase (hex target))"

subsection \<open>The hex round trip\<close>

text \<open>An opaque color of three whole channels.\<close>

definition opaque :: "nat \<Rightarrow> nat \<Rightarrow> nat \<Rightarrow> RGB" where
  "opaque r g b = \<lparr>rgb_r = Num (real r), rgb_g = Num (real g), rgb_b = Num (real b), rgb_a = None\<rparr>"

subsection \<open>Scenarios of findBestMatch\<close>

text \<open>The registry made from the CSS \<open>--spacing-sm: 1rem;\<close>, and its state after
  \<open>initialize\<close>.\<close>

definition c4_options :: "bool option \<Rightarrow> TokenRegistryOptions" where
  "c4_options nc = \<lparr>cssPath = None, cssContent = Some ''--spacing-sm: 1rem;'', normalizeColors = nc\<rparr>"

definition c4_registry :: "bool option \<Rightarrow> TokenRegistry" where
  "c4_registry nc =
     \<lparr>colorTokens = [], typographyTokens = [], spacingTokens = [spacing_sm],
      borderRadiusTokens = [], shadowTokens = [], cssVars = [(''--spacing-sm'', ''1rem'')],
      initialized = True, options = c4_options nc\<rparr>"

text \<open>The registry made from \<open>--spacing-md: 1rem; --border-radius-md: 1rem;\<close>.\<close>

definition c6_options :: TokenRegistryOptions where
  "c6_options = \<lparr>cssPath = None,
                  cssContent = Some ''--spacing-md: 1rem; --border-radius-md: 1rem;'',
                  normalizeColors = None\<rparr>"

definition spacing_md :: SpacingToken where
  "spacing_md = \<lparr>name = ''md'', cssVariable = ''--spacing-md'', tailwindClass = Some ''p-md'',
                 spacing_value = ''1rem''\<rparr>"

definition radius_md :: BorderRadiusToken where
  "radius_md = \<lparr>name = ''md'', cssVariable = ''--border-radius-md'',
                tailwindClass = Some ''rounded-md'', radius_value = ''1rem''\<rparr>"

definition c6_registry :: TokenRegistry where
  "c6_registry =
     \<lparr>colorTokens = [], typographyTokens = [], spacingTokens = [spacing_md],
      borderRadiusTokens = [radius_md], shadowTokens = [],
      cssVars = [(''--spacing-md'', ''1rem''), (''--border-radius-md'', ''1rem'')],
      initialized = True, options = c6_options\<rparr>"

subsection \<open>Spacing before border radius\<close>

text \<open>No spacing token of a registry holds a value that looks like a color: such a
  declaration becomes a color token.\<close>

definition spacing_not_color :: "TokenRegistry \<Rightarrow> bool" where
  "spacing_not_color reg = list_all (\<lambda>t. \<not> isColorValue (spacing_value t)) (spacingTokens reg)"

subsection \<open>The read accessors return copies\<close>

text \<open>A heap for the witness: the registry's five arrays at the references 0 to 4, of
  which the spacing array holds the token object at reference 5.\<close>

definition c9_refs :: registry_refs where
  "c9_refs = \<lparr>colorTokens_ref = 0, typographyTokens_ref = 1, spacingTokens_ref = 2,
               borderRadiusTokens_ref = 3, shadowTokens_ref = 4\<rparr>"

definition c9_heap :: heap where
  "c9_heap = \<lparr>arrays = [0 \<mapsto> [], 1 \<mapsto> [], 2 \<mapsto> [5], 3 \<mapsto> [], 4 \<mapsto> []],
               objects = [5 \<mapsto> SpacingT spacing_sm],
               next_ref = 6\<rparr>"

text \<open>A heap holds the state \<open>reg\<close> of the registry when each of the registry's arrays
  holds the tokens of its category, in order.\<close>

definition represents :: "heap \<Rightarrow> registry_refs \<Rightarrow> TokenRegistry \<Rightarrow> bool" where
  "represents h rr reg =
     (\<forall>c. map_sum id (map Some) (getTokensByCategory reg c) = Inr (tokens_of h (field_ref rr c)))"

subsection \<open>The first spacing declaration of a value\<close>

text \<open>The spacing token that \<open>createSpacingToken\<close> builds for an entry of the variable
  table.\<close>

definition spacing_token_of :: "string \<times> string \<Rightarrow> SpacingToken" where
  "spacing_token_of entry =
     \<lparr>name = getNameFromCssVariable (fst entry), cssVariable = fst entry,
      tailwindClass = (if startsWith (fst entry) ''--spacing-''
                       then Some (''p-'' @ getNameFromCssVariable (fst entry)) else None),
      spacing_value = snd entry\<rparr>"

text \<open>The entries of the variable table that become spacing tokens.\<close>

definition becomes_spacing :: "string \<times> string \<Rightarrow> bool" where
  "becomes_spacing entry =
     (\<not> startsWith (snd entry) ''var('' \<and> \<not> isColorValue (snd entry)
      \<and> includes_str (fst entry) ''spacing'')"

text \<open>An entry whose name contains \<open>spacing\<close> and whose value is \<open>1rem\<close>.\<close>

definition spacing_1rem :: "string \<times> string \<Rightarrow> bool" where
  "spacing_1rem entry = (snd entry = ''1rem'' \<and> includes_str (fst entry) ''spacing'')"

text \<open>The CSS \<open>--spacing-xs: 1rem; --spacing-sm: 1rem;\<close>, which holds the declaration of
  the scenario after another spacing declaration of the same value.\<close>

definition c4_two_options :: TokenRegistryOptions where
  "c4_two_options = \<lparr>cssPath = None,
                      cssContent = Some ''--spacing-xs: 1rem; --spacing-sm: 1rem;'',
                      normalizeColors = None\<rparr>"

definition spacing_xs :: SpacingToken where
  "spacing_xs = \<lparr>name = ''xs'', cssVariable = ''--spacing-xs'', tailwindClass = Some ''p-xs'',
                 spacing_value = ''1rem''\<rparr>"

definition c4_two_registry :: TokenRegistry where
  "c4_two_registry =
     \<lparr>colorTokens = [], typographyTokens = [], spacingTokens = [spacing_xs, spacing_sm],
      borderRadiusTokens = [], shadowTokens = [],
      cssVars = [(''--spacing-xs'', ''1rem''), (''--spacing-sm'', ''1rem'')],
      initialized = True, options = c4_two_options\<rparr>"

subsection \<open>The order of the records\<close>



section \<open>Properties of the program\<close>

subsection \<open>The utility-class scenario\<close>

lemma claimed_fields_with_element: "claimed_fields (with_element r res) = claimed_fields res"
  by (simp add: claimed_fields_def with_element_def Let_def split: option.splits)

lemma claimed_fields_match:
  "map_option (map_sum id (map claimed_fields)) (TailwindClassMatcher_match (Inr r) source opts)
     = map_option (\<lambda>rs. Inr (map claimed_fields rs)) (tailwind_records source opts)"
  by (cases "tailwind_records source opts")
     (simp_all add: TailwindClassMatcher_match_def claimed_fields_with_element)

lemma c1_records:
  "map_option (map claimed_fields) (tailwind_records c1_source no_options)
     = Some [(color, ''#25C9D0'', ''backgroundColor'', className),
             (typography, ''rgb(85,85,85)'', ''fontSize'', className)]"
  by code_simp

text \<open>
  C1. On the source \<open><div className="bg-[#25C9D0] text-[rgb(85,85,85)]">\<close> with default
  options the matcher does not return the two color records of the scenario. As the
  source is written no call returns a list, for the syntax error of the element
  pattern. With any well-formed pattern in its place the call returns two records, and
  the second one is
  the typography record of the later \<open>'text-'\<close> entry of \<open>TAILWIND_PREFIX_MAP\<close>:
  type typography, property \<open>fontSize\<close>, not type color, property \<open>color\<close>.
\<close>

theorem C1_tailwind_scenario:
  "TailwindClassMatcher_match elementRegex c1_source no_options = Some (Inl SyntaxError)
   \<and> (\<forall>r. map_option (map_sum id (map claimed_fields))
             (TailwindClassMatcher_match (Inr r) c1_source no_options)
           = Some (Inr [(color, ''#25C9D0'', ''backgroundColor'', className),
                        (typography, ''rgb(85,85,85)'', ''fontSize'', className)]))
   \<and> obj_get TAILWIND_PREFIX_MAP ''text-'' = Some (''fontSize'', typography)"
proof -
  have "tailwind_records c1_source no_options \<noteq> Some []"
    using c1_records by auto
  moreover obtain rs where "tailwind_records c1_source no_options = Some rs"
    using c1_records by (cases "tailwind_records c1_source no_options") auto
  ultimately have "TailwindClassMatcher_match elementRegex c1_source no_options = Some (Inl SyntaxError)"
    by (simp add: TailwindClassMatcher_match_def elementRegex_def)
  moreover have "obj_get TAILWIND_PREFIX_MAP ''text-'' = Some (''fontSize'', typography)"
    by code_simp
  ultimately show ?thesis
    using c1_records by (simp add: claimed_fields_match)
qed

text \<open>
  C3. A string that, after its white space is removed, starts with none of \<open>#\<close>,
  \<open>rgb(\<close>, \<open>rgba(\<close>, \<open>hsl(\<close>, \<open>hsla(\<close> and \<open>oklch(\<close> is parsed without an error, and
  the result is black: hex \<open>#000000\<close>, rgb \<open>(0, 0, 0)\<close>.
\<close>

theorem C3_unrecognized_is_black:
  assumes "\<not> startsWith (remove_whitespace s) ''#''"
    and "\<not> startsWith (remove_whitespace s) ''rgb(''"
    and "\<not> startsWith (remove_whitespace s) ''rgba(''"
    and "\<not> startsWith (remove_whitespace s) ''hsl(''"
    and "\<not> startsWith (remove_whitespace s) ''hsla(''"
    and "\<not> startsWith (remove_whitespace s) ''oklch(''"
  shows "parseColor s = Inr black
         \<and> hex black = ''#000000''
         \<and> rgb black = \<lparr>rgb_r = Num 0, rgb_g = Num 0, rgb_b = Num 0, rgb_a = None\<rparr>"
  using assms by (simp add: parseColor_def black_def Let_def)

theorem C3_unrecognized_is_black_witness:
  "parseColor ''light blue'' = Inr black
   \<and> hex black = ''#000000''
   \<and> rgb black = \<lparr>rgb_r = Num 0, rgb_g = Num 0, rgb_b = Num 0, rgb_a = None\<rparr>"
proof (rule C3_unrecognized_is_black)
  have ws: "remove_whitespace ''light blue'' = ''lightblue''"
    by (simp add: remove_whitespace_def is_space_def char_code_def)
  show "\<not> startsWith (remove_whitespace ''light blue'') ''#''"
    and "\<not> startsWith (remove_whitespace ''light blue'') ''rgb(''"
    and "\<not> startsWith (remove_whitespace ''light blue'') ''rgba(''"
    and "\<not> startsWith (remove_whitespace ''light blue'') ''hsl(''"
    and "\<not> startsWith (remove_whitespace ''light blue'') ''hsla(''"
    and "\<not> startsWith (remove_whitespace ''light blue'') ''oklch(''"
    by (simp_all add: ws startsWith_def)
qed

subsection \<open>findBestMatch\<close>

lemma findClosestColorMatch_color:
  assumes "findClosestColorMatch reg v opts = Inr (Some m)"
  shows "\<exists>t. tm_token m = ColorT t \<and> t \<in> set (colorTokens reg)"
proof -
  from assms have init: "initialized reg"
    by (auto simp: findClosestColorMatch_def split: if_splits)
  from assms init obtain target where target: "parseColor v = Inr target"
    by (cases "parseColor v") (auto simp: findClosestColorMatch_def)
  let ?P = "\<lambda>token. toLowerCase (hex (color_value token)) = toLowerCase (hex target)"
  show ?thesis
  proof (cases "List.find ?P (colorTokens reg)")
    case (Some t)
    then have "t \<in> set (colorTokens reg)" by (auto simp: find_Some_iff)
    with assms init target Some show ?thesis
      by (auto simp: findClosestColorMatch_def)
  next
    case None
    obtain ct sd where fold: "foldl (closest_step (rgb target)) (None, PosInf) (colorTokens reg) = (ct, sd)"
      by (cases "foldl (closest_step (rgb target)) (None, PosInf) (colorTokens reg)")
    have mem: "\<And>xs acc t d. foldl (closest_step (rgb target)) acc xs = (Some t, d) \<Longrightarrow>
              (fst acc = Some t \<or> t \<in> set xs)"
    proof -
      fix xs :: "ColorToken list" and acc t d
      show "foldl (closest_step (rgb target)) acc xs = (Some t, d) \<Longrightarrow> (fst acc = Some t \<or> t \<in> set xs)"
      proof (induction xs arbitrary: acc)
        case Nil
        then show ?case by simp
      next
        case (Cons x xs)
        from Cons.IH [of "closest_step (rgb target) acc x"] Cons.prems
        have "fst (closest_step (rgb target) acc x) = Some t \<or> t \<in> set xs" by simp
        then show ?case by (auto simp: closest_step_def Let_def split: if_splits)
      qed
    qed
    from assms init target None fold obtain t where ct: "ct = Some t" and tok: "tm_token m = ColorT t"
      by (cases ct) (auto simp: findClosestColorMatch_def Let_def split: if_splits)
    from mem [of "(None, PosInf)" "colorTokens reg" t sd] fold ct have "t \<in> set (colorTokens reg)"
      by simp
    with tok show ?thesis by blast
  qed
qed

lemma findBestMatch_cases:
  assumes "findBestMatch reg v cat opts = Inr (Some m)"
  shows "(\<exists>t. tm_token m = ColorT t) \<or> (\<exists>t. tm_token m = SpacingT t)
         \<or> (\<exists>t. tm_token m = BorderRadiusT t) \<or> (\<exists>t. tm_token m = ShadowT t)"
proof -
  let ?c = "if (cat = None \<or> cat = Some color) \<and> isColorValue v
            then findClosestColorMatch reg v opts else Inr None"
  from assms have init: "initialized reg"
    by (auto simp: findBestMatch_def split: if_splits)
  show ?thesis
  proof (cases ?c)
    case (Inl e)
    with assms init show ?thesis by (simp add: findBestMatch_def)
  next
    case (Inr r)
    show ?thesis
    proof (cases r)
      case (Some cm)
      with Inr assms init have "m = cm" by (simp add: findBestMatch_def)
      moreover from Some Inr have "findClosestColorMatch reg v opts = Inr (Some cm)"
        by (auto split: if_splits)
      ultimately show ?thesis using findClosestColorMatch_color by blast
    next
      case None
      with Inr assms init show ?thesis
        by (simp add: findBestMatch_def exact_match_def split: option.splits) auto
    qed
  qed
qed

lemma not_color_1rem: "\<not> isColorValue ''1rem''"
  by code_simp

text \<open>
  C10. Whatever the registry, the value, the category and the options, a match that
  \<open>findBestMatch\<close> returns holds a color, spacing, border radius or shadow token, never
  a typography token.
\<close>

theorem C10_never_typography:
  assumes "findBestMatch reg v cat opts = Inr (Some m)"
  shows "category (tm_token m) \<noteq> typography
         \<and> category (tm_token m) \<in> {color, spacing, borderRadius, shadow}"
  using findBestMatch_cases [OF assms] by auto

theorem C10_never_typography_witness:
  "findBestMatch one_spacing ''1rem'' None no_match_options
     = Inr (Some (exact_match (SpacingT spacing_sm) ''1rem''))
   \<and> category (tm_token (exact_match (SpacingT spacing_sm) ''1rem'')) \<noteq> typography
   \<and> category (tm_token (exact_match (SpacingT spacing_sm) ''1rem'')) \<in> {color, spacing, borderRadius, shadow}"
proof -
  have "findBestMatch one_spacing ''1rem'' None no_match_options
          = Inr (Some (exact_match (SpacingT spacing_sm) ''1rem''))"
    by (simp add: findBestMatch_def not_color_1rem one_spacing_def spacing_sm_def
          TokenRegistry_new_def)
  with C10_never_typography [of one_spacing "''1rem''" None no_match_options
         "exact_match (SpacingT spacing_sm) ''1rem''"]
  show ?thesis by simp
qed

text \<open>
  C5. On an initialized registry, for a value that parses to \<open>target\<close>: if some color
  token has the hex of \<open>target\<close>, letter case apart, the match holds the first such
  token with confidence exactly 1, whatever the distances of the other tokens and
  whatever the options; if there is none and \<open>exact\<close> is set, there is no match.
\<close>

theorem C5_exact_hex_match:
  assumes "initialized reg" and "parseColor v = Inr target"
  shows "(list_ex (same_hex target) (colorTokens reg) \<longrightarrow>
            (\<exists>t. List.find (same_hex target) (colorTokens reg) = Some t
                 \<and> t \<in> set (colorTokens reg) \<and> same_hex target t
                 \<and> findClosestColorMatch reg v opts
                     = Inr (Some \<lparr>tm_token = ColorT t, tm_confidence = Num 1, tm_originalValue = v\<rparr>)))
         \<and> (\<not> list_ex (same_hex target) (colorTokens reg) \<and> exact opts = Some True \<longrightarrow>
              findClosestColorMatch reg v opts = Inr None)"
proof -
  have P: "(\<lambda>token. toLowerCase (hex (color_value token)) = toLowerCase (hex target)) = same_hex target"
    by (simp add: same_hex_def fun_eq_iff)
  show ?thesis
  proof (cases "List.find (same_hex target) (colorTokens reg)")
    case None
    then have "\<not> list_ex (same_hex target) (colorTokens reg)"
      by (simp add: find_None_iff list_ex_iff)
    with assms None show ?thesis
      by (simp add: findClosestColorMatch_def P)
  next
    case (Some t)
    then have "t \<in> set (colorTokens reg)" "same_hex target t"
      by (auto simp: find_Some_iff)
    moreover from this have "list_ex (same_hex target) (colorTokens reg)"
      by (auto simp: list_ex_iff)
    ultimately show ?thesis using assms Some
      by (simp add: findClosestColorMatch_def P)
  qed
qed

lemma parse_FF0000: "map_sum id hex (parseColor ''#FF0000'') = Inr ''#FF0000''"
  by code_simp

theorem C5_exact_hex_match_witness:
  "initialized two_colors
   \<and> map_sum id hex (parseColor ''#FF0000'') = Inr ''#FF0000''
   \<and> findClosestColorMatch two_colors ''#FF0000'' no_match_options
       = Inr (Some \<lparr>tm_token = ColorT token_red, tm_confidence = Num 1, tm_originalValue = ''#FF0000''\<rparr>)
   \<and> initialized only_blue
   \<and> exact exact_only = Some True
   \<and> findClosestColorMatch only_blue ''#FF0000'' exact_only = Inr None"
proof -
  have init: "initialized two_colors" "initialized only_blue"
    by (simp_all add: two_colors_def only_blue_def)
  obtain t1 where t1: "parseColor ''#FF0000'' = Inr t1" and h1: "hex t1 = ''#FF0000''"
    using parse_FF0000 by (cases "parseColor ''#FF0000''") auto
  have lower: "toLowerCase ''#FF0000'' = ''#ff0000''"
    "toLowerCase ''#0000FE'' = ''#0000fe''" "toLowerCase ''#ff0000'' = ''#ff0000''"
    by code_simp+
  have s1: "\<not> same_hex t1 token_blue" "same_hex t1 token_red"
    by (simp_all add: same_hex_def h1 token_blue_def token_red_def lower)
  have "findClosestColorMatch two_colors ''#FF0000'' no_match_options
       = Inr (Some \<lparr>tm_token = ColorT token_red, tm_confidence = Num 1, tm_originalValue = ''#FF0000''\<rparr>)"
    using C5_exact_hex_match [OF init(1) t1, of no_match_options] s1
    by (simp add: two_colors_def)
  moreover have "findClosestColorMatch only_blue ''#FF0000'' exact_only = Inr None"
    using C5_exact_hex_match [OF init(2) t1, of exact_only] s1
    by (simp add: only_blue_def exact_only_def)
  ultimately show ?thesis
    using init parse_FF0000 by (simp add: exact_only_def)
qed

lemma hex_digit_table:
  "list_all (\<lambda>d. digit_value 16 (hex_digit d) = Some d \<and> \<not> is_space (hex_digit d)
                 \<and> hex_digit d \<noteq> CHR ''-'' \<and> hex_digit d \<noteq> CHR ''+''
                 \<and> hex_digit d \<noteq> CHR ''x'' \<and> hex_digit d \<noteq> CHR ''X''
                 \<and> hex_digit d \<noteq> CHR ''#'')
     [0 ..< 16]"
  by code_simp

lemma hex_digit_facts:
  assumes "d < 16"
  shows "digit_value 16 (hex_digit d) = Some d \<and> \<not> is_space (hex_digit d)
         \<and> hex_digit d \<noteq> CHR ''-'' \<and> hex_digit d \<noteq> CHR ''+''
         \<and> hex_digit d \<noteq> CHR ''x'' \<and> hex_digit d \<noteq> CHR ''X''
         \<and> hex_digit d \<noteq> CHR ''#''"
proof -
  from assms have "d \<in> set [0 ..< 16]" by simp
  with hex_digit_table show ?thesis unfolding list_all_iff by blast
qed

lemma hex_digit_value: "d < 16 \<Longrightarrow> digit_value 16 (hex_digit d) = Some d"
  using hex_digit_facts by blast

lemma hex_digit_plain:
  "d < 16 \<Longrightarrow> \<not> is_space (hex_digit d) \<and> hex_digit d \<noteq> CHR ''-'' \<and> hex_digit d \<noteq> CHR ''+''
     \<and> hex_digit d \<noteq> CHR ''x'' \<and> hex_digit d \<noteq> CHR ''X'' \<and> hex_digit d \<noteq> CHR ''#''"
  using hex_digit_facts by blast

lemma hex_of_byte:
  assumes "n \<le> 255"
  shows "hex_of_nat n = (if n < 16 then [hex_digit n] else [hex_digit (n div 16), hex_digit (n mod 16)])"
proof (cases "n < 16")
  case True
  then show ?thesis by (simp add: hex_of_nat.simps)
next
  case False
  with assms have "n div 16 < 16" by simp
  then have "hex_of_nat (n div 16) = [hex_digit (n div 16)]" by (simp add: hex_of_nat.simps)
  with False show ?thesis by (subst hex_of_nat.simps) simp
qed

lemma toHex_byte:
  assumes "n \<le> 255"
  shows "toHex (Num (real n)) = [hex_digit (n div 16), hex_digit (n mod 16)]"
proof -
  have fl: "\<lfloor>real n + 1 / 2\<rfloor> = int n" by linarith
  have clamp: "Math_max (Num 0) (Math_min (Num 255) (Num (real n))) = Num (real n)"
    using assms by (auto simp: Math_max_def Math_min_def)
  have "toHex (Num (real n)) = (let h = hex_of_nat n in if length h = 1 then ''0'' @ h else h)"
    by (simp add: toHex_def fl clamp)
  also have "\<dots> = [hex_digit (n div 16), hex_digit (n mod 16)]"
    using assms by (auto simp: hex_of_byte hex_digit_def)
  finally show ?thesis .
qed

lemma parseInt_hex_pair:
  assumes "a < 16" "b < 16"
  shows "parseInt [hex_digit a, hex_digit b] 16 = Num (real (a * 16 + b))"
  using hex_digit_plain [OF assms(1)] hex_digit_plain [OF assms(2)]
    hex_digit_value [OF assms(1)] hex_digit_value [OF assms(2)]
  by (simp add: parseInt_def startsWith_def digits_value_def Let_def)

lemma parseInt_toHex:
  assumes "n \<le> 255"
  shows "parseInt (toHex (Num (real n))) 16 = Num (real n)"
proof -
  from assms have "n div 16 < 16" "n mod 16 < 16" by simp_all
  from parseInt_hex_pair [OF this] toHex_byte [OF assms] show ?thesis by simp
qed

lemma toHex_shape:
  assumes "n \<le> 255"
  shows "\<exists>c d. toHex (Num (real n)) = [c, d] \<and> \<not> is_space c \<and> \<not> is_space d"
proof -
  from assms have "n div 16 < 16" "n mod 16 < 16" by simp_all
  with hex_digit_plain [of "n div 16"] hex_digit_plain [of "n mod 16"] toHex_byte [OF assms]
  show ?thesis by simp
qed

text \<open>
  C7. For whole channels \<open>r\<close>, \<open>g\<close>, \<open>b\<close> of 0 to 255 and no alpha, parsing the string
  that \<open>rgbToHex\<close> writes gives back the same three channels, with no alpha.
\<close>

theorem C7_hex_round_trip:
  assumes "r \<le> 255" and "g \<le> 255" and "b \<le> 255"
  shows "map_sum id rgb (parseColor (rgbToHex (opaque r g b))) = Inr (opaque r g b)"
proof -
  obtain r1 r2 where r: "toHex (Num (real r)) = [r1, r2]" "\<not> is_space r1" "\<not> is_space r2"
    using toHex_shape [OF assms(1)] by blast
  obtain g1 g2 where g: "toHex (Num (real g)) = [g1, g2]" "\<not> is_space g1" "\<not> is_space g2"
    using toHex_shape [OF assms(2)] by blast
  obtain b1 b2 where b: "toHex (Num (real b)) = [b1, b2]" "\<not> is_space b1" "\<not> is_space b2"
    using toHex_shape [OF assms(3)] by blast
  have hexstr: "rgbToHex (opaque r g b) = CHR ''#'' # [r1, r2, g1, g2, b1, b2]"
    by (simp add: rgbToHex_def opaque_def r g b)
  have nosp: "\<not> is_space (CHR ''#'')" by (simp add: is_space_def char_code_def)
  have clean: "remove_whitespace (CHR ''#'' # [r1, r2, g1, g2, b1, b2]) = CHR ''#'' # [r1, r2, g1, g2, b1, b2]"
    using r g b nosp by (simp add: remove_whitespace_def)
  have idx: "indexOf (CHR ''#'' # [r1, r2, g1, g2, b1, b2]) ''#'' 0 = 0"
    by (simp add: indexOf_def startsWith_def upt_rec)
  have strip: "replace_str (CHR ''#'' # [r1, r2, g1, g2, b1, b2]) ''#'' [] = [r1, r2, g1, g2, b1, b2]"
    by (simp add: replace_str_def idx Let_def)
  have pr: "parseInt [r1, r2] 16 = Num (real r)" using parseInt_toHex [OF assms(1)] r by simp
  have pg: "parseInt [g1, g2] 16 = Num (real g)" using parseInt_toHex [OF assms(2)] g by simp
  have pb: "parseInt [b1, b2] 16 = Num (real b)" using parseInt_toHex [OF assms(3)] b by simp
  have "rgb (parseHexColor (CHR ''#'' # [r1, r2, g1, g2, b1, b2])) = opaque r g b"
    by (simp add: parseHexColor_def strip substring_def Let_def pr pg pb opaque_def)
  then show ?thesis
    by (simp add: hexstr parseColor_def clean startsWith_def Let_def)
qed

theorem C7_hex_round_trip_witness:
  "(37::nat) \<le> 255 \<and> (201::nat) \<le> 255 \<and> (208::nat) \<le> 255
   \<and> map_sum id rgb (parseColor (rgbToHex (opaque 37 201 208))) = Inr (opaque 37 201 208)"
  using C7_hex_round_trip [of 37 201 208] by simp

lemma c4_load:
  "load ''--spacing-sm: 1rem;'' (TokenRegistry_new (c4_options nc)) = Some (Inr (c4_registry nc))"
  by code_simp

lemma findBestMatch_not_color:
  assumes "initialized reg" and "\<not> isColorValue v"
    and "List.find (\<lambda>token. spacing_value token = v) (spacingTokens reg) = Some t"
  shows "findBestMatch reg v None opts = Inr (Some (exact_match (SpacingT t) v))"
  using assms by (simp add: findBestMatch_def)

lemma createToken_spacing_not_color:
  assumes "spacing_not_color reg"
  shows "spacing_not_color (createToken reg entry)"
proof -
  obtain cssVar v where entry: "entry = (cssVar, v)" by (cases entry)
  have color: "spacingTokens (createColorToken n cssVar v reg) = spacingTokens reg" for n
    by (cases "parseColor v") (simp_all add: createColorToken_def)
  show ?thesis
    using assms unfolding entry
    by (simp add: createToken_def spacing_not_color_def Let_def color createSpacingToken_def
          createBorderRadiusToken_def createShadowToken_def createOrUpdateTypographyToken_def)
qed

lemma foldl_spacing_not_color:
  "spacing_not_color reg \<Longrightarrow> spacing_not_color (foldl createToken reg entries)"
  by (induction entries arbitrary: reg) (simp_all add: createToken_spacing_not_color)

lemma initialize_spacing_not_color:
  assumes "initialize readFile (TokenRegistry_new opts) = Some (Inr reg)"
  shows "spacing_not_color reg \<and> initialized reg"
proof -
  have new: "\<not> initialized (TokenRegistry_new opts)" by (simp add: TokenRegistry_new_def)
  from assms new obtain css where "load css (TokenRegistry_new opts) = Some (Inr reg)"
    by (auto simp: initialize_def split: option.splits list.splits)
  then obtain vars where
    reg: "reg = (createTokens ((TokenRegistry_new opts)\<lparr>cssVars := vars\<rparr>))\<lparr>initialized := True\<rparr>"
    by (auto simp: load_def split: bind_splits)
  have "spacing_not_color ((TokenRegistry_new opts)\<lparr>cssVars := vars\<rparr>)"
    by (simp add: spacing_not_color_def TokenRegistry_new_def)
  then have "spacing_not_color (createTokens ((TokenRegistry_new opts)\<lparr>cssVars := vars\<rparr>))"
    unfolding createTokens_def by (rule foldl_spacing_not_color)
  then show ?thesis by (simp add: reg spacing_not_color_def)
qed

text \<open>
  C6. In a registry that \<open>initialize\<close> has built, if a spacing token and a border radius
  token both hold the value \<open>v\<close>, then \<open>findBestMatch(v)\<close> without a category returns a
  match of category spacing: the first spacing token of value \<open>v\<close>, with confidence 1.
\<close>

theorem C6_spacing_before_radius:
  assumes "initialize readFile (TokenRegistry_new ropts) = Some (Inr reg)"
    and "s \<in> set (spacingTokens reg)" and "spacing_value s = v"
    and "b \<in> set (borderRadiusTokens reg)" and "radius_value b = v"
  shows "\<exists>t. findBestMatch reg v None opts = Inr (Some (exact_match (SpacingT t) v))
             \<and> category (tm_token (exact_match (SpacingT t) v)) = spacing
             \<and> t \<in> set (spacingTokens reg) \<and> spacing_value t = v"
proof -
  from initialize_spacing_not_color [OF assms(1)]
  have inv: "spacing_not_color reg" and init: "initialized reg" by simp_all
  from inv assms(2,3) have nc: "\<not> isColorValue v"
    by (auto simp: spacing_not_color_def list_all_iff)
  from assms(2,3) obtain t where t: "List.find (\<lambda>token. spacing_value token = v) (spacingTokens reg) = Some t"
    by (cases "List.find (\<lambda>token. spacing_value token = v) (spacingTokens reg)")
       (auto simp: find_None_iff)
  then have "t \<in> set (spacingTokens reg)" "spacing_value t = v"
    by (auto simp: find_Some_iff)
  with findBestMatch_not_color [OF init nc t, of opts] show ?thesis
    by (auto simp: exact_match_def)
qed

lemma c6_load:
  "load ''--spacing-md: 1rem; --border-radius-md: 1rem;'' (TokenRegistry_new c6_options)
     = Some (Inr c6_registry)"
  by code_simp

theorem C6_spacing_before_radius_witness:
  "initialize no_files (TokenRegistry_new c6_options) = Some (Inr c6_registry)
   \<and> spacing_md \<in> set (spacingTokens c6_registry) \<and> spacing_value spacing_md = ''1rem''
   \<and> radius_md \<in> set (borderRadiusTokens c6_registry) \<and> radius_value radius_md = ''1rem''
   \<and> findBestMatch c6_registry ''1rem'' None no_match_options
       = Inr (Some (exact_match (SpacingT spacing_md) ''1rem''))
   \<and> category (tm_token (exact_match (SpacingT spacing_md) ''1rem'')) = spacing"
proof -
  have init: "initialize no_files (TokenRegistry_new c6_options) = Some (Inr c6_registry)"
    using c6_load by (simp add: initialize_def TokenRegistry_new_def c6_options_def)
  have s: "spacing_md \<in> set (spacingTokens c6_registry)" "spacing_value spacing_md = ''1rem''"
    and b: "radius_md \<in> set (borderRadiusTokens c6_registry)" "radius_value radius_md = ''1rem''"
    by (simp_all add: c6_registry_def spacing_md_def radius_md_def)
  from C6_spacing_before_radius [OF init s b, of no_match_options]
  obtain t where "findBestMatch c6_registry ''1rem'' None no_match_options
       = Inr (Some (exact_match (SpacingT t) ''1rem''))" "t \<in> set (spacingTokens c6_registry)"
    by blast
  moreover from this have "t = spacing_md" by (simp add: c6_registry_def)
  ultimately show ?thesis using init s b by (simp add: exact_match_def)
qed

lemma field_ref_allocated: "allocated h rr \<Longrightarrow> field_ref rr c < next_ref h"
  by (cases c) (simp_all add: allocated_def)

lemma new_array_frame:
  assumes "new_array h xs = (a, h')"
  shows "a = next_ref h \<and> objects h' = objects h \<and> next_ref h' = Suc (next_ref h)
         \<and> arrays h' a = Some xs \<and> (\<forall>r. r \<noteq> a \<longrightarrow> arrays h' r = arrays h r)"
  using assms by (auto simp: new_array_def)

lemma elements_write_other: "r \<noteq> a \<Longrightarrow> elements (write_array h a xs) r = elements h r"
  by (simp add: elements_def write_array_def)

lemma answers_cong:
  assumes "\<And>c. elements h1 (field_ref rr c) = elements h2 (field_ref rr c)"
    and "objects h1 = objects h2"
  shows "answers h1 rr = answers h2 rr"
proof -
  have e: "elements h1 (colorTokens_ref rr) = elements h2 (colorTokens_ref rr)"
    "elements h1 (typographyTokens_ref rr) = elements h2 (typographyTokens_ref rr)"
    "elements h1 (spacingTokens_ref rr) = elements h2 (spacingTokens_ref rr)"
    "elements h1 (borderRadiusTokens_ref rr) = elements h2 (borderRadiusTokens_ref rr)"
    "elements h1 (shadowTokens_ref rr) = elements h2 (shadowTokens_ref rr)"
    using assms(1) [of color] assms(1) [of typography] assms(1) [of spacing]
      assms(1) [of borderRadius] assms(1) [of shadow] by simp_all
  have t: "tokens_of (snd (new_array h1 xs)) (fst (new_array h1 xs))
           = tokens_of (snd (new_array h2 xs)) (fst (new_array h2 xs))" for xs
    using assms(2) by (simp add: tokens_of_def new_array_def elements_def)
  show ?thesis
    by (simp add: answers_def getTokensByCategory_heap_def getAllTokens_heap_def
          getTokenCounts_heap_def e assms(1) split_beta t)
qed

lemma copy_is_private:
  assumes alloc: "allocated h rr" and new: "new_array h xs = (a, h')"
  shows "registry_part h' rr = registry_part h rr
         \<and> (\<forall>c. a \<noteq> field_ref rr c)
         \<and> (\<forall>ys. answers (write_array h' a ys) rr = answers h rr)"
proof -
  from new_array_frame [OF new] have a: "a = next_ref h" and obj: "objects h' = objects h"
    and other: "\<And>r. r \<noteq> a \<Longrightarrow> arrays h' r = arrays h r"
    by simp_all
  have ne: "a \<noteq> field_ref rr c" for c
    using field_ref_allocated [OF alloc, of c] a by simp
  have same: "arrays h' (field_ref rr c) = arrays h (field_ref rr c)" for c
    using other [of "field_ref rr c"] ne [of c] by auto
  have part: "registry_part h' rr = registry_part h rr"
    using same obj by (simp add: registry_part_def)
  have "answers (write_array h' a ys) rr = answers h rr" for ys
  proof (rule answers_cong)
    fix c
    have "elements (write_array h' a ys) (field_ref rr c) = elements h' (field_ref rr c)"
      using ne [of c] by (simp add: elements_write_other)
    also have "\<dots> = elements h (field_ref rr c)"
      using same [of c] by (simp add: elements_def)
    finally show "elements (write_array h' a ys) (field_ref rr c) = elements h (field_ref rr c)" .
  next
    show "objects (write_array h' a ys) = objects h"
      using obj by (simp add: write_array_def)
  qed
  with part ne show ?thesis by blast
qed

subsection \<open>Queries before initialize\<close>

text \<open>
  C2. The three queries \<open>findClosestColorMatch\<close>, \<open>findBestMatch\<close> and
  \<open>exportTokensToJson\<close> test \<open>initialized\<close> and throw the usage error on a registry that
  was never initialized. The other five queries have no such test: on the new registry
  made for the CSS \<open>--spacing-sm: 1rem;\<close>, before \<open>initialize\<close>,
  \<open>getTokensByCategory\<close> and \<open>getAllTokens\<close> return the empty list,
  \<open>findTokenByName\<close> and \<open>findTokenByCssVariable\<close> return no token and
  \<open>getTokenCounts\<close> returns zero for every category, where the claim has them fail
  with the usage error.
\<close>

theorem C2_unguarded_queries:
  "initialized (TokenRegistry_new (c4_options None)) = False
   \<and> findClosestColorMatch (TokenRegistry_new (c4_options None)) ''1rem'' no_match_options
       = Inl notInitialized
   \<and> findBestMatch (TokenRegistry_new (c4_options None)) ''1rem'' None no_match_options
       = Inl notInitialized
   \<and> exportTokensToJson write_ok (TokenRegistry_new (c4_options None)) ''tokens.json''
       = Inl notInitialized
   \<and> getTokensByCategory (TokenRegistry_new (c4_options None)) spacing = Inr []
   \<and> getAllTokens (TokenRegistry_new (c4_options None)) = Inr []
   \<and> findTokenByName (TokenRegistry_new (c4_options None)) ''sm'' = Inr None
   \<and> findTokenByCssVariable (TokenRegistry_new (c4_options None)) ''--spacing-sm'' = Inr None
   \<and> getTokenCounts (TokenRegistry_new (c4_options None)) = Inr no_tokens"
  by (simp add: TokenRegistry_new_def findClosestColorMatch_def findBestMatch_def
        exportTokensToJson_def getAllTokens_def findTokenByName_def findTokenByCssVariable_def
        getTokenCounts_def no_tokens_def)

text \<open>The part of the state machine that the code keeps: the three guarded queries throw
  on every registry that is not initialized, a call of \<open>initialize\<close> that returns leaves
  the registry initialized, and \<open>initialize\<close> on an initialized registry returns and
  changes nothing.\<close>

lemma guarded_queries:
  "\<not> initialized reg \<Longrightarrow>
     findClosestColorMatch reg v mo = Inl notInitialized
     \<and> findBestMatch reg v cat mo = Inl notInitialized
     \<and> exportTokensToJson writeTokens reg path = Inl notInitialized"
  by (simp add: findClosestColorMatch_def findBestMatch_def exportTokensToJson_def)

lemma initialize_one_way:
  "(initialize readFile reg = Some (Inr reg') \<longrightarrow> initialized reg')
   \<and> (initialized reg \<longrightarrow> initialize readFile reg = Some (Inr reg))"
  by (auto simp: initialize_def load_def split: if_splits option.splits list.splits bind_splits)

lemma c4_two_load:
  "load ''--spacing-xs: 1rem; --spacing-sm: 1rem;'' (TokenRegistry_new c4_two_options)
     = Some (Inr c4_two_registry)"
  by code_simp

text \<open>
  C4, as the claim states it, fails: the CSS \<open>--spacing-xs: 1rem; --spacing-sm: 1rem;\<close>
  contains the declaration \<open>--spacing-sm: 1rem;\<close>, and after \<open>initialize\<close> the query
  \<open>findBestMatch('1rem')\<close> returns the spacing token named \<open>xs\<close>, not \<open>sm\<close>.
\<close>

theorem C4_counterexample:
  "includes_str ''--spacing-xs: 1rem; --spacing-sm: 1rem;'' ''--spacing-sm: 1rem;''
   \<and> initialize no_files (TokenRegistry_new c4_two_options) = Some (Inr c4_two_registry)
   \<and> findBestMatch c4_two_registry ''1rem'' None no_match_options
       = Inr (Some \<lparr>tm_token = SpacingT spacing_xs, tm_confidence = Num 1,
                     tm_originalValue = ''1rem''\<rparr>)
   \<and> name spacing_xs = ''xs''
   \<and> name spacing_xs \<noteq> ''sm''"
proof -
  have "includes_str ''--spacing-xs: 1rem; --spacing-sm: 1rem;'' ''--spacing-sm: 1rem;''"
    by code_simp
  moreover have "initialize no_files (TokenRegistry_new c4_two_options) = Some (Inr c4_two_registry)"
    using c4_two_load by (simp add: initialize_def TokenRegistry_new_def c4_two_options_def)
  moreover have "findBestMatch c4_two_registry ''1rem'' None no_match_options
       = Inr (Some (exact_match (SpacingT spacing_xs) ''1rem''))"
    by (rule findBestMatch_not_color)
       (simp_all add: not_color_1rem c4_two_registry_def spacing_xs_def)
  ultimately show ?thesis by (simp add: exact_match_def spacing_xs_def)
qed

lemma createToken_spacingTokens:
  "spacingTokens (createToken reg entry)
     = spacingTokens reg @ (if becomes_spacing entry then [spacing_token_of entry] else [])"
proof -
  obtain cssVar v where entry: "entry = (cssVar, v)" by (cases entry)
  have color: "spacingTokens (createColorToken n cssVar v reg) = spacingTokens reg" for n
    by (cases "parseColor v") (simp_all add: createColorToken_def)
  show ?thesis
    unfolding entry
    by (simp add: createToken_def becomes_spacing_def spacing_token_of_def Let_def color
          createSpacingToken_def createBorderRadiusToken_def createShadowToken_def
          createOrUpdateTypographyToken_def)
qed

lemma createToken_cssVars: "cssVars (createToken reg entry) = cssVars reg"
proof -
  obtain cssVar v where entry: "entry = (cssVar, v)" by (cases entry)
  have color: "cssVars (createColorToken n cssVar v reg) = cssVars reg" for n
    by (cases "parseColor v") (simp_all add: createColorToken_def)
  show ?thesis
    unfolding entry
    by (simp add: createToken_def Let_def color
          createSpacingToken_def createBorderRadiusToken_def createShadowToken_def
          createOrUpdateTypographyToken_def)
qed

lemma foldl_createToken_spacingTokens:
  "spacingTokens (foldl createToken reg entries)
     = spacingTokens reg @ map spacing_token_of (filter becomes_spacing entries)"
  by (induction entries arbitrary: reg) (simp_all add: createToken_spacingTokens)

lemma foldl_createToken_cssVars: "cssVars (foldl createToken reg entries) = cssVars reg"
  by (induction entries arbitrary: reg) (simp_all add: createToken_cssVars)

text \<open>The registry that \<open>initialize\<close> builds holds one spacing token for each entry of
  its variable table that becomes one, in the order of the table.\<close>

lemma initialize_spacingTokens:
  assumes "initialize readFile (TokenRegistry_new ropts) = Some (Inr reg)"
  shows "initialized reg
         \<and> spacingTokens reg = map spacing_token_of (filter becomes_spacing (cssVars reg))"
proof -
  have new: "\<not> initialized (TokenRegistry_new ropts)" by (simp add: TokenRegistry_new_def)
  from assms new obtain css where "load css (TokenRegistry_new ropts) = Some (Inr reg)"
    by (auto simp: initialize_def split: option.splits list.splits)
  then obtain vars where
    reg: "reg = (createTokens ((TokenRegistry_new ropts)\<lparr>cssVars := vars\<rparr>))\<lparr>initialized := True\<rparr>"
    by (auto simp: load_def split: bind_splits)
  show ?thesis
    by (simp add: reg createTokens_def foldl_createToken_spacingTokens foldl_createToken_cssVars
          TokenRegistry_new_def)
qed

text \<open>The variable table of such a registry is the table of the declarations of its
  CSS.\<close>

lemma initialize_cssVars:
  assumes "initialize readFile (TokenRegistry_new ropts) = Some (Inr reg)"
  shows "\<exists>css. parseCssVariables css [] = Some (cssVars reg)"
proof -
  have new: "\<not> initialized (TokenRegistry_new ropts)" by (simp add: TokenRegistry_new_def)
  from assms new obtain css where "load css (TokenRegistry_new ropts) = Some (Inr reg)"
    by (auto simp: initialize_def split: option.splits list.splits)
  then obtain vars where vars: "parseCssVariables css (cssVars (TokenRegistry_new ropts)) = Some vars"
    and reg: "reg = (createTokens ((TokenRegistry_new ropts)\<lparr>cssVars := vars\<rparr>))\<lparr>initialized := True\<rparr>"
    by (auto simp: load_def split: bind_splits)
  have "cssVars reg = vars"
    by (simp add: reg createTokens_def foldl_createToken_cssVars)
  with vars show ?thesis by (auto simp: TokenRegistry_new_def)
qed

lemma not_var_1rem: "\<not> startsWith ''1rem'' ''var(''"
  by (simp add: startsWith_def)

lemma find_spacing_1rem:
  "List.find (\<lambda>token. spacing_value token = ''1rem'')
       (map spacing_token_of (filter becomes_spacing entries))
     = map_option spacing_token_of (List.find spacing_1rem entries)"
proof (induction entries)
  case Nil
  then show ?case by simp
next
  case (Cons e es)
  have "spacing_1rem e \<longleftrightarrow> becomes_spacing e \<and> snd e = ''1rem''"
    using not_var_1rem not_color_1rem by (auto simp: spacing_1rem_def becomes_spacing_def)
  with Cons show ?case by (auto simp: spacing_token_of_def)
qed

lemma spacing_token_of_sm: "spacing_token_of (''--spacing-sm'', ''1rem'') = spacing_sm"
  by code_simp

text \<open>
  C4, amended. Take any registry that \<open>initialize\<close> has built, from whatever CSS. If the
  first entry of its variable table whose name contains \<open>spacing\<close> and whose value is
  \<open>1rem\<close> is \<open>--spacing-sm\<close>, then \<open>findBestMatch('1rem')\<close> without a category returns
  the spacing token named \<open>sm\<close> with confidence exactly 1, whatever the matching options.
  (The table holds each variable once, at the place of its first declaration and with
  the value of its last one.)
\<close>

theorem C4_first_spacing_1rem:
  assumes "initialize readFile (TokenRegistry_new ropts) = Some (Inr reg)"
    and "List.find spacing_1rem (cssVars reg) = Some (''--spacing-sm'', ''1rem'')"
  shows "findBestMatch reg ''1rem'' None opts
           = Inr (Some \<lparr>tm_token = SpacingT spacing_sm, tm_confidence = Num 1,
                         tm_originalValue = ''1rem''\<rparr>)
         \<and> category (SpacingT spacing_sm) = spacing
         \<and> name spacing_sm = ''sm''"
proof -
  from initialize_spacingTokens [OF assms(1)]
  have init: "initialized reg"
    and sp: "spacingTokens reg = map spacing_token_of (filter becomes_spacing (cssVars reg))"
    by simp_all
  have "List.find (\<lambda>token. spacing_value token = ''1rem'') (spacingTokens reg) = Some spacing_sm"
    by (simp add: sp find_spacing_1rem assms(2) spacing_token_of_sm)
  from findBestMatch_not_color [OF init not_color_1rem this, of opts]
  show ?thesis by (simp add: exact_match_def spacing_sm_def)
qed

theorem C4_first_spacing_1rem_witness:
  "initialize no_files (TokenRegistry_new (c4_options None)) = Some (Inr (c4_registry None))
   \<and> List.find spacing_1rem (cssVars (c4_registry None)) = Some (''--spacing-sm'', ''1rem'')
   \<and> findBestMatch (c4_registry None) ''1rem'' None no_match_options
       = Inr (Some \<lparr>tm_token = SpacingT spacing_sm, tm_confidence = Num 1,
                     tm_originalValue = ''1rem''\<rparr>)
   \<and> category (SpacingT spacing_sm) = spacing
   \<and> name spacing_sm = ''sm''"
proof -
  have init: "initialize no_files (TokenRegistry_new (c4_options None)) = Some (Inr (c4_registry None))"
    using c4_load [of None] by (simp add: initialize_def TokenRegistry_new_def c4_options_def)
  have "spacing_1rem (''--spacing-sm'', ''1rem'')"
    by code_simp
  then have first: "List.find spacing_1rem (cssVars (c4_registry None)) = Some (''--spacing-sm'', ''1rem'')"
    by (simp add: c4_registry_def)
  from C4_first_spacing_1rem [OF init first, of no_match_options] init first
  show ?thesis by simp
qed

lemma represents_tokens:
  assumes "represents h rr reg"
  shows "tokens_of h (colorTokens_ref rr) = map Some (map ColorT (colorTokens reg))"
    and "tokens_of h (typographyTokens_ref rr) = map Some (map TypographyT (typographyTokens reg))"
    and "tokens_of h (spacingTokens_ref rr) = map Some (map SpacingT (spacingTokens reg))"
    and "tokens_of h (borderRadiusTokens_ref rr) = map Some (map BorderRadiusT (borderRadiusTokens reg))"
    and "tokens_of h (shadowTokens_ref rr) = map Some (map ShadowT (shadowTokens reg))"
proof -
  from assms have r: "map_sum id (map Some) (getTokensByCategory reg c) = Inr (tokens_of h (field_ref rr c))" for c
    by (simp add: represents_def)
  from r [of color] show "tokens_of h (colorTokens_ref rr) = map Some (map ColorT (colorTokens reg))"
    by simp
  from r [of typography] show "tokens_of h (typographyTokens_ref rr) = map Some (map TypographyT (typographyTokens reg))"
    by simp
  from r [of spacing] show "tokens_of h (spacingTokens_ref rr) = map Some (map SpacingT (spacingTokens reg))"
    by simp
  from r [of borderRadius] show "tokens_of h (borderRadiusTokens_ref rr) = map Some (map BorderRadiusT (borderRadiusTokens reg))"
    by simp
  from r [of shadow] show "tokens_of h (shadowTokens_ref rr) = map Some (map ShadowT (shadowTokens reg))"
    by simp
qed

lemma represents_counts:
  assumes "represents h rr reg"
  shows "Inr (fst (getTokenCounts_heap h rr)) = getTokenCounts reg"
proof -
  have len: "length (elements h a) = length (tokens_of h a)" for a
    by (simp add: tokens_of_def)
  show ?thesis
    by (simp add: getTokenCounts_heap_def getTokenCounts_def len represents_tokens [OF assms])
qed

lemma represents_all:
  assumes "represents h rr reg" and "getAllTokens_heap h rr = (a, h')"
  shows "map_sum id (map Some) (getAllTokens reg) = Inr (tokens_of h' a)"
proof -
  from assms(2) have "tokens_of h' a
      = tokens_of h (colorTokens_ref rr) @ tokens_of h (typographyTokens_ref rr)
        @ tokens_of h (spacingTokens_ref rr) @ tokens_of h (borderRadiusTokens_ref rr)
        @ tokens_of h (shadowTokens_ref rr)"
    by (auto simp: getAllTokens_heap_def new_array_def tokens_of_def elements_def)
  then show ?thesis
    by (simp add: getAllTokens_def represents_tokens [OF assms(1)])
qed

text \<open>
  C9, as the claim states it, fails for the tokens: the array that
  \<open>getTokensByCategory\<close> returns holds the reference 5 of the registry's own token
  object, and after a write to that object, reached through the returned array, the
  accessors answer differently. The copy protects the registry's arrays, not its
  tokens.
\<close>

theorem C9_counterexample:
  "elements (snd (getTokensByCategory_heap c9_heap c9_refs spacing))
       (fst (getTokensByCategory_heap c9_heap c9_refs spacing)) = [5]
   \<and> elements c9_heap (spacingTokens_ref c9_refs) = [5]
   \<and> answers (write_object (snd (getTokensByCategory_heap c9_heap c9_refs spacing)) 5
                (SpacingT spacing_md)) c9_refs
       \<noteq> answers c9_heap c9_refs"
proof -
  have "fst (snd (answers (write_object (snd (getTokensByCategory_heap c9_heap c9_refs spacing)) 5
                (SpacingT spacing_md)) c9_refs))
          = [Some (SpacingT spacing_md)]"
    and "fst (snd (answers c9_heap c9_refs)) = [Some (SpacingT spacing_sm)]"
    by (simp_all add: answers_def getAllTokens_heap_def getTokensByCategory_heap_def new_array_def
          write_object_def tokens_of_def elements_def c9_heap_def c9_refs_def)
  moreover have "spacing_md \<noteq> spacing_sm"
    by (simp add: spacing_md_def spacing_sm_def)
  ultimately have "answers (write_object (snd (getTokensByCategory_heap c9_heap c9_refs spacing)) 5
                (SpacingT spacing_md)) c9_refs
       \<noteq> answers c9_heap c9_refs"
    by auto
  then show ?thesis
    by (simp add: getTokensByCategory_heap_def new_array_def elements_def c9_heap_def c9_refs_def)
qed

text \<open>
  C9, amended. On a heap where the registry's arrays are allocated, the three accessors
  leave the registry's five arrays and every token object as they were.
  \<open>getTokensByCategory\<close> and \<open>getAllTokens\<close> return a reference \<open>a\<close> to a new array,
  which is none of the registry's arrays and holds, in order, the references of the
  category's array, or of the five arrays one after the other: the tokens that the
  accessor lists for the state the heap holds. \<open>getTokenCounts\<close> returns the five
  lengths. Whatever is then written to the array at \<open>a\<close>, the three accessors answer as
  before the call. The copy is shallow: its elements are the registry's own token
  objects, and nothing is said here of writes to those.
\<close>

theorem C9_accessors_return_shallow_copies:
  assumes "allocated h rr"
  shows "(getTokensByCategory_heap h rr c = (a, h') \<longrightarrow>
            registry_part h' rr = registry_part h rr
            \<and> (\<forall>c'. a \<noteq> field_ref rr c')
            \<and> elements h' a = elements h (field_ref rr c)
            \<and> (represents h rr reg \<longrightarrow>
                  map_sum id (map Some) (getTokensByCategory reg c) = Inr (tokens_of h' a))
            \<and> (\<forall>ys. answers (write_array h' a ys) rr = answers h rr))
         \<and> (getAllTokens_heap h rr = (a, h') \<longrightarrow>
              registry_part h' rr = registry_part h rr
              \<and> (\<forall>c'. a \<noteq> field_ref rr c')
              \<and> elements h' a
                  = elements h (colorTokens_ref rr) @ elements h (typographyTokens_ref rr)
                    @ elements h (spacingTokens_ref rr) @ elements h (borderRadiusTokens_ref rr)
                    @ elements h (shadowTokens_ref rr)
              \<and> (represents h rr reg \<longrightarrow>
                    map_sum id (map Some) (getAllTokens reg) = Inr (tokens_of h' a))
              \<and> (\<forall>ys. answers (write_array h' a ys) rr = answers h rr))
         \<and> snd (getTokenCounts_heap h rr) = h
         \<and> (represents h rr reg \<longrightarrow> Inr (fst (getTokenCounts_heap h rr)) = getTokenCounts reg)"
proof -
  have e1: "elements h' a = elements h (field_ref rr c)
            \<and> tokens_of h' a = tokens_of h (field_ref rr c)"
    if "getTokensByCategory_heap h rr c = (a, h')"
    using that by (auto simp: getTokensByCategory_heap_def new_array_def tokens_of_def elements_def)
  have e2: "elements h' a
                  = elements h (colorTokens_ref rr) @ elements h (typographyTokens_ref rr)
                    @ elements h (spacingTokens_ref rr) @ elements h (borderRadiusTokens_ref rr)
                    @ elements h (shadowTokens_ref rr)"
    if "getAllTokens_heap h rr = (a, h')"
    using that by (auto simp: getAllTokens_heap_def new_array_def elements_def)
  have p1: "registry_part h' rr = registry_part h rr \<and> (\<forall>c'. a \<noteq> field_ref rr c')
            \<and> (\<forall>ys. answers (write_array h' a ys) rr = answers h rr)"
    if "getTokensByCategory_heap h rr c = (a, h')"
    using that copy_is_private [OF assms, of _ a h'] by (simp add: getTokensByCategory_heap_def)
  have p2: "registry_part h' rr = registry_part h rr \<and> (\<forall>c'. a \<noteq> field_ref rr c')
            \<and> (\<forall>ys. answers (write_array h' a ys) rr = answers h rr)"
    if "getAllTokens_heap h rr = (a, h')"
    using that copy_is_private [OF assms, of _ a h'] by (simp add: getAllTokens_heap_def)
  have r1: "map_sum id (map Some) (getTokensByCategory reg c) = Inr (tokens_of h' a)"
    if "getTokensByCategory_heap h rr c = (a, h')" "represents h rr reg"
    using that e1 by (simp add: represents_def)
  have c: "snd (getTokenCounts_heap h rr) = h"
    by (simp add: getTokenCounts_heap_def)
  show ?thesis
    using e1 e2 p1 p2 r1 c represents_all [of h rr reg a h'] represents_counts [of h rr reg]
    by blast
qed

theorem C9_accessors_return_shallow_copies_witness:
  "allocated c9_heap c9_refs
   \<and> represents c9_heap c9_refs one_spacing
   \<and> fst (getTokensByCategory_heap c9_heap c9_refs spacing) = 6
   \<and> getTokensByCategory one_spacing spacing = Inr [SpacingT spacing_sm]
   \<and> tokens_of (snd (getTokensByCategory_heap c9_heap c9_refs spacing)) 6 = [Some (SpacingT spacing_sm)]
   \<and> answers (write_array (snd (getTokensByCategory_heap c9_heap c9_refs spacing)) 6 []) c9_refs
       = answers c9_heap c9_refs
   \<and> fst (getAllTokens_heap c9_heap c9_refs) = 6
   \<and> getAllTokens one_spacing = Inr [SpacingT spacing_sm]
   \<and> tokens_of (snd (getAllTokens_heap c9_heap c9_refs)) 6 = [Some (SpacingT spacing_sm)]
   \<and> answers (write_array (snd (getAllTokens_heap c9_heap c9_refs)) 6 [5, 5]) c9_refs
       = answers c9_heap c9_refs
   \<and> getTokenCounts one_spacing = Inr (fst (getTokenCounts_heap c9_heap c9_refs))
   \<and> count_spacing (fst (getTokenCounts_heap c9_heap c9_refs)) = 1"
proof -
  have alloc: "allocated c9_heap c9_refs"
    by (simp add: allocated_def c9_heap_def c9_refs_def)
  have f1: "fst (getTokensByCategory_heap c9_heap c9_refs spacing) = 6"
    and f2: "fst (getAllTokens_heap c9_heap c9_refs) = 6"
    by (simp_all add: getTokensByCategory_heap_def getAllTokens_heap_def new_array_def c9_heap_def)
  have rep: "represents c9_heap c9_refs one_spacing"
    unfolding represents_def
  proof
    fix c
    show "map_sum id (map Some) (getTokensByCategory one_spacing c)
            = Inr (tokens_of c9_heap (field_ref c9_refs c))"
      by (cases c)
         (simp_all add: one_spacing_def TokenRegistry_new_def tokens_of_def elements_def
            c9_heap_def c9_refs_def)
  qed
  have pure: "getTokensByCategory one_spacing spacing = Inr [SpacingT spacing_sm]"
    "getAllTokens one_spacing = Inr [SpacingT spacing_sm]"
    by (simp_all add: one_spacing_def getAllTokens_def TokenRegistry_new_def)
  have cnt: "count_spacing (fst (getTokenCounts_heap c9_heap c9_refs)) = 1"
    by (simp add: getTokenCounts_heap_def elements_def c9_heap_def c9_refs_def)
  have eq1: "getTokensByCategory_heap c9_heap c9_refs spacing
               = (6, snd (getTokensByCategory_heap c9_heap c9_refs spacing))"
    and eq2: "getAllTokens_heap c9_heap c9_refs = (6, snd (getAllTokens_heap c9_heap c9_refs))"
    using f1 f2 by (simp_all add: prod_eq_iff)
  from C9_accessors_return_shallow_copies [OF alloc, of spacing 6
      "snd (getTokensByCategory_heap c9_heap c9_refs spacing)" one_spacing] eq1 rep
  have m1: "map_sum id (map Some) (getTokensByCategory one_spacing spacing)
          = Inr (tokens_of (snd (getTokensByCategory_heap c9_heap c9_refs spacing)) 6)"
    and a1: "answers (write_array (snd (getTokensByCategory_heap c9_heap c9_refs spacing)) 6 []) c9_refs
          = answers c9_heap c9_refs"
    and c1: "Inr (fst (getTokenCounts_heap c9_heap c9_refs)) = getTokenCounts one_spacing"
    by blast+
  have t1: "tokens_of (snd (getTokensByCategory_heap c9_heap c9_refs spacing)) 6
                  = [Some (SpacingT spacing_sm)]"
    using m1 unfolding pure(1) by simp
  from C9_accessors_return_shallow_copies [OF alloc, of spacing 6
      "snd (getAllTokens_heap c9_heap c9_refs)" one_spacing] eq2 rep
  have m2: "map_sum id (map Some) (getAllTokens one_spacing)
          = Inr (tokens_of (snd (getAllTokens_heap c9_heap c9_refs)) 6)"
    and a2: "answers (write_array (snd (getAllTokens_heap c9_heap c9_refs)) 6 [5, 5]) c9_refs
          = answers c9_heap c9_refs"
    by blast+
  have t2: "tokens_of (snd (getAllTokens_heap c9_heap c9_refs)) 6 = [Some (SpacingT spacing_sm)]"
    using m2 unfolding pure(2) by simp
  show ?thesis
    using alloc rep f1 f2 pure t1 t2 a1 a2 c1 [symmetric] cnt by (intro conjI)
qed

subsection \<open>The order of the utility-class records\<close>
































end
